theory Spec2Isabelle
  imports Main
begin

section \<open>Strings and JavaScript values\<close>

text \<open>
  A JavaScript string is modelled as the list of its Unicode code points, which is what the
  \<^verbatim>\<open>u\<close>-flagged regular expression of the handlers works on. ASCII literals of the
  source are written through \<open>ustr\<close>; the accented letters of the Portuguese messages are
  given by their code points.
\<close>

type_synonym ustring = "nat list"

definition ustr :: "string \<Rightarrow> ustring" where
  "ustr s = map of_char s"

text \<open>
  The class \<^verbatim>\<open>\s\<close> of a regular expression and the characters removed by
  \<^verbatim>\<open>String.prototype.trim\<close> are the same set in ECMAScript: WhiteSpace and LineTerminator.
\<close>

definition isWhiteSpace :: "nat \<Rightarrow> bool" where
  "isWhiteSpace c \<longleftrightarrow>
     c = 9 \<or> c = 10 \<or> c = 11 \<or> c = 12 \<or> c = 13 \<or> c = 32 \<or> c = 160 \<or> c = 5760 \<or>
     (8192 \<le> c \<and> c \<le> 8202) \<or> c = 8232 \<or> c = 8233 \<or> c = 8239 \<or> c = 8287 \<or>
     c = 12288 \<or> c = 65279"

definition trim :: "ustring \<Rightarrow> ustring" where
  "trim s = rev (dropWhile isWhiteSpace (rev (dropWhile isWhiteSpace s)))"

text \<open>
  \<^verbatim>\<open>x || d\<close> where \<open>x\<close> is a string or null: null and the empty string are falsy.
  \<open>or_null\<close> is \<^verbatim>\<open>x || null\<close>, \<open>or_else\<close> is \<^verbatim>\<open>x || 'literal'\<close>, and \<open>str_or\<close> is the
  same for an \<open>x\<close> that is always a string.
\<close>

definition or_null :: "ustring option \<Rightarrow> ustring option" where
  "or_null x = (case x of None \<Rightarrow> None | Some s \<Rightarrow> if s = [] then None else Some s)"

definition str_or :: "ustring \<Rightarrow> ustring \<Rightarrow> ustring" where
  "str_or s d = (if s = [] then d else s)"

definition or_else :: "ustring option \<Rightarrow> ustring \<Rightarrow> ustring" where
  "or_else x d = (case x of None \<Rightarrow> d | Some s \<Rightarrow> str_or s d)"

text \<open>\<^verbatim>\<open>Array.prototype.join\<close> with a separator.\<close>

fun join :: "ustring \<Rightarrow> ustring list \<Rightarrow> ustring" where
  "join sep [] = []"
| "join sep [x] = x"
| "join sep (x # y # ys) = x @ sep @ join sep (y # ys)"

text \<open>
  A parameter of the query string as Fastify hands it over: absent, a string, or an array of
  strings when the key is repeated.
\<close>

datatype qval = QMissing | QStr ustring | QArr "ustring list"

record request =
  rq_query :: qval
  rq_page :: qval
  rq_limit :: qval
  rq_perPage :: qval

section \<open>The cache store\<close>

text \<open>
  Modelled from the spec: the schema of the two tables is not part of the sources. The spec
  gives \<^verbatim>\<open>animes(id PK, title_romaji, title_english, title_native, description, genres,
  cover_image, banner_image, episodes)\<close> and \<^verbatim>\<open>anime_episodes(anime_id FK, episode_number,
  title_romaji, title_translated, thumbnail_image, UNIQUE(anime_id, episode_number))\<close>.
  A column holds \<open>None\<close> for SQL NULL. The keys that \<^verbatim>\<open>ON DUPLICATE KEY UPDATE\<close> of the
  statements in server.js reacts to are these two.
\<close>

record anime_row =
  a_id :: int
  a_title_romaji :: "ustring option"
  a_title_english :: "ustring option"
  a_title_native :: "ustring option"
  a_description :: "ustring option"
  a_genres :: "ustring option"
  a_cover_image :: "ustring option"
  a_banner_image :: "ustring option"
  a_episodes :: "int option"

record episode_row =
  e_anime_id :: int
  e_episode_number :: int
  e_title_romaji :: "ustring option"
  e_title_translated :: "ustring option"
  e_thumbnail_image :: "ustring option"

record db =
  t_animes :: "anime_row list"
  t_anime_episodes :: "episode_row list"

text \<open>The four selected columns of \<^verbatim>\<open>SELECT id, title_romaji, title_english, title_native\<close>,
  also the shape of one entry of \<^verbatim>\<open>animeValues\<close>.\<close>

type_synonym title_row = "int \<times> ustring option \<times> ustring option \<times> ustring option"

text \<open>The four selected columns of the episode query of the cache-hit path.\<close>

type_synonym episode_out = "int \<times> ustring option \<times> ustring option \<times> ustring option"

datatype db_stmt =
    SelectTitles ustring
  | SelectAnimes ustring "int option" "int option"
  | SelectEpisodes int
  | UpsertTitles "title_row list"
  | UpsertEpisodes "episode_row list"
  | UpsertAnime anime_row

section \<open>The upstream services and the platform\<close>

record media_title =
  romaji :: "ustring option"
  english :: "ustring option"
  native :: "ustring option"

record streaming_episode =
  se_title :: "ustring option"
  se_thumbnail :: "ustring option"

text \<open>
  One \<^verbatim>\<open>Media\<close> object of the AniList answer. \<open>m_coverImage\<close> is \<open>None\<close> for a null
  \<^verbatim>\<open>coverImage\<close> and \<open>Some None\<close> for an object whose \<^verbatim>\<open>extraLarge\<close> is null.
  Every field the handlers guard with \<^verbatim>\<open>||\<close> or \<^verbatim>\<open>?.\<close> may be null, and so may
  \<^verbatim>\<open>title\<close>, which they read unguarded; the entries of the lists are objects and
  \<^verbatim>\<open>id\<close> is a number.
\<close>

record media =
  m_id :: int
  m_title :: "media_title option"
  m_description :: "ustring option"
  m_genres :: "ustring list option"
  m_episodes :: "int option"
  m_coverImage :: "ustring option option"
  m_bannerImage :: "ustring option"
  m_streamingEpisodes :: "streaming_episode list option"

datatype exn = DbError | NetworkError | HttpError | JsonError | TypeError

text \<open>
  What \<^verbatim>\<open>fetch\<close> gives for the DeepL call: a rejected promise, or a response with its
  \<^verbatim>\<open>ok\<close> flag and body. A body is not JSON, or JSON without a \<^verbatim>\<open>translations\<close> array,
  or carries the array; an entry of the array is the \<^verbatim>\<open>text\<close> of a translation
  (\<open>None\<close> when the entry is null or has no text).
\<close>

datatype deepl_body =
    BodyNotJson
  | BodyNoTranslations
  | BodyTranslations "ustring option list"

datatype fetch_outcome =
    FetchRejected
  | FetchResponse bool deepl_body

datatype event =
    DbQuery db_stmt
  | GraphqlMedia ustring
  | GraphqlPage ustring "int option" "int option"
  | DeeplFetch ustring ustring

text \<open>
  The behaviour of everything outside the process during one request: which statements the
  database rejects (for whatever reason: a lost connection, a violated constraint), what
  AniList answers (\<open>Inl\<close> when \<^verbatim>\<open>graphqlClient.request\<close> throws;
  for the paginated query \<open>None\<close> is a null \<^verbatim>\<open>Page\<close> and \<open>Some None\<close> a null
  \<^verbatim>\<open>media\<close>), and what the \<open>k\<close>-th call to DeepL of the request gives.
\<close>

record world =
  db_fails :: "db_stmt \<Rightarrow> bool"
  anilist_media :: "ustring \<Rightarrow> exn + media option"
  anilist_page :: "ustring \<Rightarrow> int option \<Rightarrow> int option \<Rightarrow> exn + media list option option"
  deepl :: "nat \<Rightarrow> ustring \<Rightarrow> ustring \<Rightarrow> fetch_outcome"

text \<open>
  What the handlers use of the language, its libraries and the database engine, none of it
  in the sources: the Unicode classes \<^verbatim>\<open>\p{L}\<close> and \<^verbatim>\<open>\p{N}\<close>, \<^verbatim>\<open>parseInt\<close> on a
  present query parameter (\<open>None\<close> is NaN), \<^verbatim>\<open>sanitizeHtml\<close> with no allowed tag or
  attribute, the collation's answer to \<^verbatim>\<open>column LIKE '%q%'\<close> on a non-null column, and the
  column defaults of \<^verbatim>\<open>animes\<close> for an insert that names only some columns.
\<close>

record platform =
  p_L :: "nat \<Rightarrow> bool"
  p_N :: "nat \<Rightarrow> bool"
  parseInt :: "qval \<Rightarrow> int option"
  sanitizeHtml :: "ustring \<Rightarrow> ustring"
  like_contains :: "ustring \<Rightarrow> ustring \<Rightarrow> bool"
  column_defaults :: anime_row

section \<open>The statements sent to the database\<close>

definition col_like :: "platform \<Rightarrow> ustring \<Rightarrow> ustring option \<Rightarrow> bool" where
  "col_like P q c = (case c of None \<Rightarrow> False | Some t \<Rightarrow> like_contains P q t)"

definition title_match :: "platform \<Rightarrow> ustring \<Rightarrow> anime_row \<Rightarrow> bool" where
  "title_match P q r \<longleftrightarrow>
     col_like P q (a_title_romaji r) \<or> col_like P q (a_title_english r) \<or>
     col_like P q (a_title_native r)"

definition title_cols :: "anime_row \<Rightarrow> title_row" where
  "title_cols r = (a_id r, a_title_romaji r, a_title_english r, a_title_native r)"

definition episode_cols :: "episode_row \<Rightarrow> episode_out" where
  "episode_cols e = (e_episode_number e, e_title_romaji e, e_title_translated e, e_thumbnail_image e)"

definition select_titles_rows :: "platform \<Rightarrow> ustring \<Rightarrow> db \<Rightarrow> title_row list" where
  "select_titles_rows P q d = map title_cols (filter (title_match P q) (t_animes d))"

text \<open>\<^verbatim>\<open>LIMIT ? OFFSET ?\<close>: NaN or a negative number in either place is a syntax error.\<close>

definition select_animes_rows ::
  "platform \<Rightarrow> ustring \<Rightarrow> int option \<Rightarrow> int option \<Rightarrow> db \<Rightarrow> anime_row list option" where
  "select_animes_rows P q lim off d =
     (case (lim, off) of
        (Some l, Some k) \<Rightarrow>
          if 0 \<le> l \<and> 0 \<le> k
          then Some (take (nat l) (drop (nat k) (filter (title_match P q) (t_animes d))))
          else None
      | _ \<Rightarrow> None)"

definition select_episodes_rows :: "int \<Rightarrow> db \<Rightarrow> episode_out list" where
  "select_episodes_rows i d =
     map episode_cols (filter (\<lambda>e. e_anime_id e = i) (t_anime_episodes d))"

text \<open>
  \<^verbatim>\<open>INSERT INTO animes (id, title_romaji, title_english, title_native) VALUES ?
  ON DUPLICATE KEY UPDATE\<close> of the three title columns, one row of the batch.
\<close>

fun upsert_title_row :: "anime_row \<Rightarrow> title_row \<Rightarrow> anime_row list \<Rightarrow> anime_row list" where
  "upsert_title_row dflt (i, ro, en, na) [] =
     [dflt\<lparr>a_id := i, a_title_romaji := ro, a_title_english := en, a_title_native := na\<rparr>]"
| "upsert_title_row dflt (i, ro, en, na) (r # rs) =
     (if a_id r = i
      then r\<lparr>a_title_romaji := ro, a_title_english := en, a_title_native := na\<rparr> # rs
      else r # upsert_title_row dflt (i, ro, en, na) rs)"

fun upsert_titles :: "anime_row \<Rightarrow> title_row list \<Rightarrow> anime_row list \<Rightarrow> anime_row list" where
  "upsert_titles dflt [] rows = rows"
| "upsert_titles dflt (v # vs) rows = upsert_titles dflt vs (upsert_title_row dflt v rows)"

text \<open>The batch upsert of \<^verbatim>\<open>anime_episodes\<close>, keyed on (anime_id, episode_number).\<close>

fun upsert_episode :: "episode_row \<Rightarrow> episode_row list \<Rightarrow> episode_row list" where
  "upsert_episode v [] = [v]"
| "upsert_episode v (r # rs) =
     (if e_anime_id r = e_anime_id v \<and> e_episode_number r = e_episode_number v
      then r\<lparr>e_title_romaji := e_title_romaji v, e_title_translated := e_title_translated v,
             e_thumbnail_image := e_thumbnail_image v\<rparr> # rs
      else r # upsert_episode v rs)"

fun upsert_episodes :: "episode_row list \<Rightarrow> episode_row list \<Rightarrow> episode_row list" where
  "upsert_episodes [] rows = rows"
| "upsert_episodes (v # vs) rows = upsert_episodes vs (upsert_episode v rows)"

text \<open>The upsert of one full row of \<^verbatim>\<open>animes\<close>, keyed on id.\<close>

fun upsert_anime :: "anime_row \<Rightarrow> anime_row list \<Rightarrow> anime_row list" where
  "upsert_anime v [] = [v]"
| "upsert_anime v (r # rs) =
     (if a_id r = a_id v
      then r\<lparr>a_title_romaji := a_title_romaji v, a_title_english := a_title_english v,
             a_title_native := a_title_native v, a_description := a_description v,
             a_genres := a_genres v, a_cover_image := a_cover_image v,
             a_banner_image := a_banner_image v, a_episodes := a_episodes v\<rparr> # rs
      else r # upsert_anime v rs)"

section \<open>Effects: the store, the trace of outbound calls, rejected promises\<close>

record st =
  st_db :: db
  st_trace :: "event list"

type_synonym 'a io = "st \<Rightarrow> (exn + 'a) \<times> st"

definition io_return :: "'a \<Rightarrow> 'a io" where
  "io_return x s = (Inr x, s)"

definition io_bind :: "'a io \<Rightarrow> ('a \<Rightarrow> 'b io) \<Rightarrow> 'b io" where
  "io_bind m f s = (case m s of (Inl e, s') \<Rightarrow> (Inl e, s') | (Inr x, s') \<Rightarrow> f x s')"

definition io_throw :: "exn \<Rightarrow> 'a io" where
  "io_throw e s = (Inl e, s)"

definition emit :: "event \<Rightarrow> st \<Rightarrow> st" where
  "emit ev s = s\<lparr>st_trace := st_trace s @ [ev]\<rparr>"

text \<open>
  \<^verbatim>\<open>Promise.all\<close> over promises created by \<^verbatim>\<open>map\<close>: every call is issued, in the order of
  the array, and the whole is rejected when one of them is.
\<close>

fun io_all :: "'a io list \<Rightarrow> 'a list io" where
  "io_all [] s = (Inr [], s)"
| "io_all (m # ms) s =
     (case m s of (r, s1) \<Rightarrow>
        (case io_all ms s1 of (rs, s2) \<Rightarrow>
           ((case r of Inl e \<Rightarrow> Inl e
             | Inr x \<Rightarrow> (case rs of Inl e \<Rightarrow> Inl e | Inr xs \<Rightarrow> Inr (x # xs))), s2)))"

text \<open>
  One \<^verbatim>\<open>pool.query\<close>: the statement is sent; the database rejects it or answers, and then
  its effect on the tables is committed (no transaction spans two statements).
\<close>

definition pool_query :: "world \<Rightarrow> db_stmt \<Rightarrow> (db \<Rightarrow> 'a option) \<Rightarrow> (db \<Rightarrow> db) \<Rightarrow> 'a io" where
  "pool_query W stmt answer effect s =
     (let s' = emit (DbQuery stmt) s in
      if db_fails W stmt then (Inl DbError, s')
      else (case answer (st_db s) of
              None \<Rightarrow> (Inl DbError, s')
            | Some rows \<Rightarrow> (Inr rows, s'\<lparr>st_db := effect (st_db s)\<rparr>)))"

definition graphql_media :: "world \<Rightarrow> ustring \<Rightarrow> media option io" where
  "graphql_media W search s = (anilist_media W search, emit (GraphqlMedia search) s)"

definition graphql_page ::
  "world \<Rightarrow> ustring \<Rightarrow> int option \<Rightarrow> int option \<Rightarrow> media list option option io" where
  "graphql_page W search pg per s =
     (anilist_page W search pg per, emit (GraphqlPage search pg per) s)"

section \<open>translateText\<close>

definition unavailable :: ustring where
  "unavailable = ustr ''Tradu'' @ [231, 227] @ ustr ''o indispon'' @ [237] @ ustr ''vel''"

text \<open>The body of the \<^verbatim>\<open>try\<close> block; \<open>Inl\<close> is what it throws.\<close>

definition translate_try :: "world \<Rightarrow> nat \<Rightarrow> ustring \<Rightarrow> ustring \<Rightarrow> exn + ustring" where
  "translate_try W k text targetLang =
     (case deepl W k text targetLang of
        FetchRejected \<Rightarrow> Inl NetworkError
      | FetchResponse ok body \<Rightarrow>
          if \<not> ok then Inl HttpError
          else (case body of
                  BodyNotJson \<Rightarrow> Inl JsonError
                | BodyNoTranslations \<Rightarrow> Inl TypeError
                | BodyTranslations ts \<Rightarrow>
                    (case ts of
                       [] \<Rightarrow> Inr unavailable
                     | t # _ \<Rightarrow> Inr (or_else t unavailable))))"

definition translateText :: "world \<Rightarrow> nat \<Rightarrow> ustring \<Rightarrow> ustring \<Rightarrow> ustring io" where
  "translateText W k text targetLang s =
     (case translate_try W k text targetLang of
        Inl error \<Rightarrow> (Inr unavailable, emit (DeeplFetch text targetLang) s)
      | Inr t \<Rightarrow> (Inr t, emit (DeeplFetch text targetLang) s))"

section \<open>Replies\<close>

text \<open>
  The anime object and one episode object of the \<^verbatim>\<open>source: 'api'\<close> answer of
  \<^verbatim>\<open>/anime/name\<close>.
\<close>

record api_anime =
  r_id :: int
  r_title :: media_title
  r_description :: ustring
  r_genres :: "ustring list option"
  r_episodes :: "int option"
  r_coverImage :: "ustring option"
  r_bannerImage :: "ustring option"

record api_episode =
  r_number :: int
  r_title_romaji :: "ustring option"
  r_title_translated :: "ustring option"
  r_thumbnail :: "ustring option"

datatype detail_result =
    FromDb anime_row "episode_out list"
  | FromApi api_anime "api_episode list"

text \<open>
  The JSON bodies: \<^verbatim>\<open>{error}\<close>; \<^verbatim>\<open>{source, results, message?}\<close> of the two title
  endpoints; \<^verbatim>\<open>{source, results, page, limit}\<close> of \<^verbatim>\<open>/anime/name\<close>.
\<close>

datatype payload =
    ErrorBody ustring
  | TitlesBody ustring "title_row list" "ustring option"
  | DetailBody ustring "detail_result list" "int option" "int option"

record reply =
  status :: nat
  body :: payload

record outcome =
  sent :: reply
  db_after :: db
  calls :: "event list"

definition consulta_vazia :: ustring where
  "consulta_vazia = ustr ''A consulta deve ser uma string n'' @ [227] @ ustr ''o vazia.''"

definition erro_interno :: ustring where
  "erro_interno = ustr ''Erro interno do servidor.''"

definition nenhum_titulo :: ustring where
  "nenhum_titulo = ustr ''Nenhum t'' @ [237] @
     ustr ''tulo encontrado no banco. Tente buscar na API AniList.''"

definition nenhum_anime :: ustring where
  "nenhum_anime = ustr ''Nenhum anime encontrado na API.''"

definition anime_nao_encontrado :: ustring where
  "anime_nao_encontrado = ustr ''Anime n'' @ [227] @ ustr ''o encontrado na AniList API.''"

definition sem_titulo :: ustring where
  "sem_titulo = ustr ''Sem t'' @ [237] @ ustr ''tulo''"

definition sem_descricao :: ustring where
  "sem_descricao = ustr ''Sem descri'' @ [231, 227] @ ustr ''o''"

definition generos_desconhecidos :: ustring where
  "generos_desconhecidos = ustr ''G'' @ [234] @ ustr ''neros desconhecidos''"

definition bad_request :: "db \<Rightarrow> outcome" where
  "bad_request d =
     \<lparr>sent = \<lparr>status = 400, body = ErrorBody consulta_vazia\<rparr>, db_after = d, calls = []\<rparr>"

text \<open>
  The \<^verbatim>\<open>try\<close>/\<^verbatim>\<open>catch\<close> around each handler body: a value is the reply the body sent,
  anything thrown becomes the 500 reply.
\<close>

definition finish :: "(exn + reply) \<times> st \<Rightarrow> outcome" where
  "finish r =
     (case r of
        (Inl error, s) \<Rightarrow>
          \<lparr>sent = \<lparr>status = 500, body = ErrorBody erro_interno\<rparr>,
           db_after = st_db s, calls = st_trace s\<rparr>
      | (Inr answer, s) \<Rightarrow> \<lparr>sent = answer, db_after = st_db s, calls = st_trace s\<rparr>)"

definition run_handler :: "reply io \<Rightarrow> db \<Rightarrow> outcome" where
  "run_handler m d = finish (m \<lparr>st_db = d, st_trace = []\<rparr>)"

section \<open>The three handlers\<close>

text \<open>\<^verbatim>\<open>query.replace(/[^\p{L}\p{N}\s]/gu, '').trim()\<close>\<close>

definition sanitizeQuery :: "platform \<Rightarrow> ustring \<Rightarrow> ustring" where
  "sanitizeQuery P query =
     trim (filter (\<lambda>c. p_L P c \<or> p_N P c \<or> isWhiteSpace c) query)"

text \<open>
  \<^verbatim>\<open>const { page = 1 } = req.query; parseInt(page)\<close>. Numbers are integers without a
  bound here, and NaN is \<open>None\<close>; the rounding of doubles is left out.
\<close>

definition param_int :: "platform \<Rightarrow> int \<Rightarrow> qval \<Rightarrow> int option" where
  "param_int P dflt v = (case v of QMissing \<Rightarrow> Some dflt | _ \<Rightarrow> parseInt P v)"

text \<open>
  \<^verbatim>\<open>(parseInt(page) - 1) * parseInt(limit)\<close>; NaN in, NaN out. The later
  \<^verbatim>\<open>parseInt(offset)\<close> gives an integer back as it is.
\<close>

definition offset_of :: "int option \<Rightarrow> int option \<Rightarrow> int option" where
  "offset_of pg lim =
     (case (pg, lim) of (Some p, Some l) \<Rightarrow> Some ((p - 1) * l) | _ \<Rightarrow> None)"

subsection \<open>GET /anime/search-titles\<close>

definition search_titles_try :: "platform \<Rightarrow> world \<Rightarrow> ustring \<Rightarrow> reply io" where
  "search_titles_try P W sanitizedQuery =
     io_bind
       (pool_query W (SelectTitles sanitizedQuery)
          (\<lambda>d. Some (select_titles_rows P sanitizedQuery d)) (\<lambda>d. d))
       (\<lambda>rows.
          if rows \<noteq> []
          then io_return \<lparr>status = 200, body = TitlesBody (ustr ''database'') rows None\<rparr>
          else io_return
                 \<lparr>status = 200, body = TitlesBody (ustr ''database'') [] (Some nenhum_titulo)\<rparr>)"

definition anime_search_titles :: "platform \<Rightarrow> world \<Rightarrow> request \<Rightarrow> db \<Rightarrow> outcome" where
  "anime_search_titles P W req d =
     (case rq_query req of
        QStr query \<Rightarrow>
          if trim query = [] then bad_request d
          else run_handler (search_titles_try P W (sanitizeQuery P query)) d
      | _ \<Rightarrow> bad_request d)"

subsection \<open>GET /anime/search-api\<close>

text \<open>
  The array \<^verbatim>\<open>animeValues\<close>; reading \<^verbatim>\<open>anime.title.romaji\<close> of a null title throws
  (\<open>None\<close>).
\<close>

fun animeValues :: "media list \<Rightarrow> title_row list option" where
  "animeValues [] = Some []"
| "animeValues (anime # rest) =
     (case m_title anime of
        None \<Rightarrow> None
      | Some title \<Rightarrow>
          (case animeValues rest of
             None \<Rightarrow> None
           | Some vs \<Rightarrow>
               Some ((m_id anime, or_null (romaji title),
                      Some (or_else (english title) (ustr ''N/A'')),
                      or_null (native title)) # vs)))"

definition title_summary :: "media \<Rightarrow> title_row" where
  "title_summary anime =
     (case m_title anime of
        None \<Rightarrow> (m_id anime, None, None, None)
      | Some title \<Rightarrow> (m_id anime, romaji title, english title, native title))"

definition search_api_try :: "platform \<Rightarrow> world \<Rightarrow> request \<Rightarrow> ustring \<Rightarrow> reply io" where
  "search_api_try P W req sanitizedQuery =
     io_bind
       (graphql_page W sanitizedQuery (param_int P 1 (rq_page req))
          (param_int P 10 (rq_perPage req)))
       (\<lambda>response.
          case response of
            None \<Rightarrow> io_throw TypeError
          | Some None \<Rightarrow> io_return \<lparr>status = 404, body = ErrorBody nenhum_anime\<rparr>
          | Some (Some found) \<Rightarrow>
              if found = [] then io_return \<lparr>status = 404, body = ErrorBody nenhum_anime\<rparr>
              else (case animeValues found of
                      None \<Rightarrow> io_throw TypeError
                    | Some values \<Rightarrow>
                        io_bind
                          (pool_query W (UpsertTitles values) (\<lambda>d. Some ())
                             (\<lambda>d. d\<lparr>t_animes :=
                                      upsert_titles (column_defaults P) values (t_animes d)\<rparr>))
                          (\<lambda>_. io_return
                                  \<lparr>status = 200,
                                   body = TitlesBody (ustr ''api'') (map title_summary found)
                                            None\<rparr>)))"

definition anime_search_api :: "platform \<Rightarrow> world \<Rightarrow> request \<Rightarrow> db \<Rightarrow> outcome" where
  "anime_search_api P W req d =
     (case rq_query req of
        QStr query \<Rightarrow>
          if trim query = [] then bad_request d
          else run_handler (search_api_try P W req (sanitizeQuery P query)) d
      | _ \<Rightarrow> bad_request d)"

subsection \<open>GET /anime/name\<close>

text \<open>The cache-hit branch: one episode query per matched row, all issued, then the reply.\<close>

definition name_from_db ::
  "world \<Rightarrow> anime_row list \<Rightarrow> int option \<Rightarrow> int option \<Rightarrow> reply io" where
  "name_from_db W rows pg lim =
     io_bind
       (io_all
          (map (\<lambda>anime.
                  io_bind
                    (pool_query W (SelectEpisodes (a_id anime))
                       (\<lambda>d. Some (select_episodes_rows (a_id anime) d)) (\<lambda>d. d))
                    (\<lambda>episodes. io_return (FromDb anime episodes)))
               rows))
       (\<lambda>animeResults.
          io_return \<lparr>status = 200, body = DetailBody (ustr ''database'') animeResults pg lim\<rparr>)"

text \<open>
  \<^verbatim>\<open>anime.streamingEpisodes?.map((ep, index) => ({...})) || []\<close>; the translated title is
  set later.
\<close>

definition episodes_of :: "media \<Rightarrow> episode_row list" where
  "episodes_of anime =
     (case m_streamingEpisodes anime of
        None \<Rightarrow> []
      | Some eps \<Rightarrow>
          map (\<lambda>(index, ep).
                 \<lparr>e_anime_id = m_id anime, e_episode_number = int index + 1,
                  e_title_romaji = or_null (se_title ep), e_title_translated = None,
                  e_thumbnail_image = or_null (se_thumbnail ep)\<rparr>)
              (enumerate 0 eps))"

text \<open>
  The translations of the episode titles. The description was call 0 to DeepL, the episode
  at index \<open>i\<close> is call \<open>i + 1\<close>.
\<close>

definition translatedTitles :: "platform \<Rightarrow> world \<Rightarrow> episode_row list \<Rightarrow> ustring list io" where
  "translatedTitles P W episodes =
     io_all
       (map (\<lambda>(k, ep).
               io_bind (translateText W k (or_else (e_title_romaji ep) []) (ustr ''PT-BR''))
                 (\<lambda>translatedTitle.
                    io_return (str_or (sanitizeHtml P translatedTitle) sem_titulo)))
            (enumerate 1 episodes))"

text \<open>\<^verbatim>\<open>episodes.forEach((ep, index) => { ep.title_translated = translatedTitles[index]; })\<close>\<close>

definition with_titles :: "episode_row list \<Rightarrow> ustring list \<Rightarrow> episode_row list" where
  "with_titles episodes titles =
     map (\<lambda>(ep, t). ep\<lparr>e_title_translated := Some t\<rparr>) (zip episodes titles)"

text \<open>The nine parameters of the upsert of the anime.\<close>

definition anime_params :: "media \<Rightarrow> media_title \<Rightarrow> ustring \<Rightarrow> anime_row" where
  "anime_params anime title cleanDescription =
     \<lparr>a_id = m_id anime,
      a_title_romaji = or_null (romaji title),
      a_title_english = Some (or_else (english title) (ustr ''N/A'')),
      a_title_native = or_null (native title),
      a_description = Some (str_or cleanDescription sem_descricao),
      a_genres =
        Some (str_or (case m_genres anime of None \<Rightarrow> [] | Some g \<Rightarrow> join (ustr '', '') g)
                generos_desconhecidos),
      a_cover_image = (case m_coverImage anime of None \<Rightarrow> None | Some c \<Rightarrow> or_null c),
      a_banner_image = or_null (m_bannerImage anime),
      a_episodes = Some (case m_episodes anime of None \<Rightarrow> 0 | Some n \<Rightarrow> n)\<rparr>"

definition api_result :: "media \<Rightarrow> media_title \<Rightarrow> ustring \<Rightarrow> episode_row list \<Rightarrow> detail_result" where
  "api_result anime title cleanDescription episodes =
     FromApi
       \<lparr>r_id = m_id anime, r_title = title, r_description = cleanDescription,
        r_genres = m_genres anime, r_episodes = m_episodes anime,
        r_coverImage = (case m_coverImage anime of None \<Rightarrow> None | Some c \<Rightarrow> c),
        r_bannerImage = m_bannerImage anime\<rparr>
       (map (\<lambda>ep. \<lparr>r_number = e_episode_number ep, r_title_romaji = e_title_romaji ep,
                   r_title_translated = e_title_translated ep,
                   r_thumbnail = e_thumbnail_image ep\<rparr>)
            episodes)"

text \<open>
  The cache-miss branch once AniList has answered with a match: translate, build the
  episodes, upsert the episodes when there are any, upsert the anime, reply.
\<close>

definition name_from_api :: "platform \<Rightarrow> world \<Rightarrow> media \<Rightarrow> reply io" where
  "name_from_api P W anime =
     io_bind (translateText W 0 (or_else (m_description anime) []) (ustr ''PT-BR''))
       (\<lambda>descriptionPt.
          let cleanDescription = sanitizeHtml P descriptionPt in
          io_bind (translatedTitles P W (episodes_of anime))
            (\<lambda>titles.
               let episodes = with_titles (episodes_of anime) titles in
               io_bind
                 (if episodes \<noteq> []
                  then pool_query W (UpsertEpisodes episodes) (\<lambda>d. Some ())
                         (\<lambda>d. d\<lparr>t_anime_episodes :=
                                  upsert_episodes episodes (t_anime_episodes d)\<rparr>)
                  else io_return ())
                 (\<lambda>_. case m_title anime of
                         None \<Rightarrow> io_throw TypeError
                       | Some title \<Rightarrow>
                           io_bind
                             (pool_query W (UpsertAnime (anime_params anime title cleanDescription))
                                (\<lambda>d. Some ())
                                (\<lambda>d. d\<lparr>t_animes :=
                                         upsert_anime (anime_params anime title cleanDescription)
                                           (t_animes d)\<rparr>))
                             (\<lambda>_. io_return
                                     \<lparr>status = 200,
                                      body = DetailBody (ustr ''api'')
                                               [api_result anime title cleanDescription episodes]
                                               (Some 1) (Some 1)\<rparr>))))"

definition name_try :: "platform \<Rightarrow> world \<Rightarrow> request \<Rightarrow> ustring \<Rightarrow> reply io" where
  "name_try P W req sanitizedQuery =
     (let pg = param_int P 1 (rq_page req);
          lim = param_int P 10 (rq_limit req);
          offset = offset_of pg lim
      in io_bind
           (pool_query W (SelectAnimes sanitizedQuery lim offset)
              (select_animes_rows P sanitizedQuery lim offset) (\<lambda>d. d))
           (\<lambda>rows.
              if rows \<noteq> [] then name_from_db W rows pg lim
              else io_bind (graphql_media W sanitizedQuery)
                     (\<lambda>response.
                        case response of
                          None \<Rightarrow>
                            io_return \<lparr>status = 404, body = ErrorBody anime_nao_encontrado\<rparr>
                        | Some anime \<Rightarrow> name_from_api P W anime)))"

definition anime_name :: "platform \<Rightarrow> world \<Rightarrow> request \<Rightarrow> db \<Rightarrow> outcome" where
  "anime_name P W req d =
     (case rq_query req of
        QStr query \<Rightarrow>
          if trim query = [] then bad_request d
          else run_handler (name_try P W req (sanitizeQuery P query)) d
      | _ \<Rightarrow> bad_request d)"

section \<open>What a run computes\<close>

text \<open>
  The values the promises of a run resolve to and the calls it makes, written as functions
  of the behaviour of the outside world. The lemmas on the runs of the handler bodies show
  that the handlers compute exactly these; the claims are stated with them.
\<close>

text \<open>What \<^verbatim>\<open>translateText\<close> resolves to.\<close>

definition translated :: "world \<Rightarrow> nat \<Rightarrow> ustring \<Rightarrow> ustring \<Rightarrow> ustring" where
  "translated W k text targetLang =
     (case translate_try W k text targetLang of Inl _ \<Rightarrow> unavailable | Inr t \<Rightarrow> t)"

definition episode_titles :: "platform \<Rightarrow> world \<Rightarrow> episode_row list \<Rightarrow> ustring list" where
  "episode_titles P W episodes =
     map (\<lambda>(k, ep). str_or (sanitizeHtml P
                (translated W k (or_else (e_title_romaji ep) []) (ustr ''PT-BR''))) sem_titulo)
         (enumerate 1 episodes)"

definition title_calls :: "episode_row list \<Rightarrow> event list" where
  "title_calls episodes =
     map (\<lambda>ep. DeeplFetch (or_else (e_title_romaji ep) []) (ustr ''PT-BR'')) episodes"

text \<open>
  The sanitized description and the episodes with their translated titles, as the
  cache-miss branch has them when it starts to write.
\<close>

definition cleanDescription :: "platform \<Rightarrow> world \<Rightarrow> media \<Rightarrow> ustring" where
  "cleanDescription P W anime =
     sanitizeHtml P (translated W 0 (or_else (m_description anime) []) (ustr ''PT-BR''))"

definition episodeValues :: "platform \<Rightarrow> world \<Rightarrow> media \<Rightarrow> episode_row list" where
  "episodeValues P W anime =
     with_titles (episodes_of anime) (episode_titles P W (episodes_of anime))"

definition deepl_calls :: "media \<Rightarrow> event list" where
  "deepl_calls anime =
     DeeplFetch (or_else (m_description anime) []) (ustr ''PT-BR'') #
     title_calls (episodes_of anime)"

text \<open>The state after the episode step and after the upsert of the anime.\<close>

definition episodes_stored :: "episode_row list \<Rightarrow> st \<Rightarrow> st" where
  "episodes_stored eps s =
     (if eps = [] then s
      else s\<lparr>st_db := (st_db s)\<lparr>t_anime_episodes :=
                                  upsert_episodes eps (t_anime_episodes (st_db s))\<rparr>,
             st_trace := st_trace s @ [DbQuery (UpsertEpisodes eps)]\<rparr>)"

definition anime_stored :: "anime_row \<Rightarrow> st \<Rightarrow> st" where
  "anime_stored row s =
     s\<lparr>st_db := (st_db s)\<lparr>t_animes := upsert_anime row (t_animes (st_db s))\<rparr>,
       st_trace := st_trace s @ [DbQuery (UpsertAnime row)]\<rparr>"

text \<open>The calls of the episode step, and of the episode queries of the cache-hit branch.\<close>

definition episodes_call :: "episode_row list \<Rightarrow> event list" where
  "episodes_call eps = (if eps = [] then [] else [DbQuery (UpsertEpisodes eps)])"

definition episode_calls :: "anime_row list \<Rightarrow> event list" where
  "episode_calls rows = map (\<lambda>anime. DbQuery (SelectEpisodes (a_id anime))) rows"

definition db_results :: "db \<Rightarrow> anime_row list \<Rightarrow> detail_result list" where
  "db_results d rows = map (\<lambda>anime. FromDb anime (select_episodes_rows (a_id anime) d)) rows"

text \<open>The first statement of \<^verbatim>\<open>/anime/name\<close> and its answer.\<close>

definition name_select :: "platform \<Rightarrow> request \<Rightarrow> ustring \<Rightarrow> db_stmt" where
  "name_select P req sq =
     SelectAnimes sq (param_int P 10 (rq_limit req))
       (offset_of (param_int P 1 (rq_page req)) (param_int P 10 (rq_limit req)))"

definition name_rows :: "platform \<Rightarrow> request \<Rightarrow> ustring \<Rightarrow> db \<Rightarrow> anime_row list option" where
  "name_rows P req sq d =
     select_animes_rows P sq (param_int P 10 (rq_limit req))
       (offset_of (param_int P 1 (rq_page req)) (param_int P 10 (rq_limit req))) d"

text \<open>The calls of the cache-miss branch before it writes.\<close>

definition miss_prefix :: "platform \<Rightarrow> request \<Rightarrow> ustring \<Rightarrow> media \<Rightarrow> event list" where
  "miss_prefix P req q anime =
     [DbQuery (name_select P req (sanitizeQuery P q)), GraphqlMedia (sanitizeQuery P q)] @
     deepl_calls anime"

text \<open>The GraphQL request of \<^verbatim>\<open>/anime/search-api\<close> and its answer.\<close>

definition api_page :: "platform \<Rightarrow> world \<Rightarrow> request \<Rightarrow> ustring \<Rightarrow> exn + media list option option" where
  "api_page P W req q =
     anilist_page W (sanitizeQuery P q) (param_int P 1 (rq_page req))
       (param_int P 10 (rq_perPage req))"

definition page_call :: "platform \<Rightarrow> request \<Rightarrow> ustring \<Rightarrow> event" where
  "page_call P req q =
     GraphqlPage (sanitizeQuery P q) (param_int P 1 (rq_page req))
       (param_int P 10 (rq_perPage req))"

text \<open>
  The request reaches the cache-miss branch of \<^verbatim>\<open>/anime/name\<close> and AniList answers
  with \<open>anime\<close>: the query \<open>q\<close> is valid, the first statement is accepted and selects no
  row.
\<close>

definition reaches_api :: "platform \<Rightarrow> world \<Rightarrow> request \<Rightarrow> db \<Rightarrow> ustring \<Rightarrow> media \<Rightarrow> bool" where
  "reaches_api P W req d q anime \<longleftrightarrow>
     rq_query req = QStr q \<and> trim q \<noteq> [] \<and>
     \<not> db_fails W (name_select P req (sanitizeQuery P q)) \<and>
     name_rows P req (sanitizeQuery P q) d = Some [] \<and>
     anilist_media W (sanitizeQuery P q) = Inr (Some anime)"

text \<open>The upstream episode listing, empty when \<^verbatim>\<open>streamingEpisodes\<close> is null.\<close>

definition streaming :: "media \<Rightarrow> streaming_episode list" where
  "streaming anime = (case m_streamingEpisodes anime of None \<Rightarrow> [] | Some eps \<Rightarrow> eps)"

text \<open>The identifier and the three title values both upserts write for an anime.\<close>

definition title_values :: "media \<Rightarrow> media_title \<Rightarrow> title_row" where
  "title_values anime title =
     (m_id anime, or_null (romaji title), Some (or_else (english title) (ustr ''N/A'')),
      or_null (native title))"

section \<open>Vocabulary of the claims\<close>

text \<open>An outbound HTTP call, as opposed to a statement sent to the database.\<close>

fun is_http :: "event \<Rightarrow> bool" where
  "is_http (DbQuery stmt) = False"
| "is_http (GraphqlMedia search) = True"
| "is_http (GraphqlPage search pg per) = True"
| "is_http (DeeplFetch text lang) = True"

text \<open>The search text a call carries, if it carries one.\<close>

fun searched :: "event \<Rightarrow> ustring option" where
  "searched (DbQuery (SelectTitles t)) = Some t"
| "searched (DbQuery (SelectAnimes t lim off)) = Some t"
| "searched (GraphqlMedia t) = Some t"
| "searched (GraphqlPage t pg per) = Some t"
| "searched ev = None"

text \<open>A character inside the three classes the normalisation keeps.\<close>

definition kept :: "platform \<Rightarrow> nat \<Rightarrow> bool" where
  "kept P c \<longleftrightarrow> p_L P c \<or> p_N P c \<or> isWhiteSpace c"

text \<open>A title that is null or the empty string, so that \<^verbatim>\<open>||\<close> takes its right operand.\<close>

definition missing :: "ustring option \<Rightarrow> bool" where
  "missing x \<longleftrightarrow> x = None \<or> x = Some []"

text \<open>The unique key of an episode row, and the columns of an anime row that are not titles.\<close>

definition episode_key :: "episode_row \<Rightarrow> int \<times> int" where
  "episode_key e = (e_anime_id e, e_episode_number e)"

definition other_columns ::
  "anime_row \<Rightarrow> int \<times> ustring option \<times> ustring option \<times> ustring option \<times> ustring option \<times> int option" where
  "other_columns r =
     (a_id r, a_description r, a_genres r, a_cover_image r, a_banner_image r, a_episodes r)"

section \<open>A platform, worlds and stores for the examples\<close>

text \<open>
  A small platform for concrete runs: ASCII letters and katakana as \<^verbatim>\<open>\p{L}\<close>, ASCII
  digits as \<^verbatim>\<open>\p{N}\<close>; \<^verbatim>\<open>parseInt\<close> on an optional sign and decimal digits (leading
  white space skipped, no hexadecimal prefix); a sanitizer that drops everything between
  \<^verbatim>\<open><\<close> and \<^verbatim>\<open>>\<close>; a case-sensitive \<^verbatim>\<open>LIKE\<close>; NULL as the default of every column.
\<close>

definition is_digit :: "nat \<Rightarrow> bool" where
  "is_digit c \<longleftrightarrow> 48 \<le> c \<and> c \<le> 57"

definition digits_value :: "ustring \<Rightarrow> int option" where
  "digits_value s =
     (let ds = takeWhile is_digit s
      in if ds = [] then None else Some (foldl (\<lambda>a c. 10 * a + (int c - 48)) 0 ds))"

definition parse_decimal :: "ustring \<Rightarrow> int option" where
  "parse_decimal s =
     (case dropWhile isWhiteSpace s of
        [] \<Rightarrow> None
      | c # cs \<Rightarrow>
          if c = 45 then map_option uminus (digits_value cs)
          else if c = 43 then digits_value cs
          else digits_value (c # cs))"

definition demo_parseInt :: "qval \<Rightarrow> int option" where
  "demo_parseInt v =
     (case v of
        QMissing \<Rightarrow> None
      | QStr s \<Rightarrow> parse_decimal s
      | QArr xs \<Rightarrow> parse_decimal (join [44] xs))"

fun strip_tags :: "bool \<Rightarrow> ustring \<Rightarrow> ustring" where
  "strip_tags inside [] = []"
| "strip_tags inside (c # cs) =
     (if inside then strip_tags (c \<noteq> 62) cs
      else if c = 60 then strip_tags True cs
      else c # strip_tags False cs)"

fun contains :: "ustring \<Rightarrow> ustring \<Rightarrow> bool" where
  "contains q [] \<longleftrightarrow> q = []"
| "contains q (c # cs) \<longleftrightarrow> take (length q) (c # cs) = q \<or> contains q cs"

definition demo_platform :: platform where
  "demo_platform =
     \<lparr>p_L = (\<lambda>c. (65 \<le> c \<and> c \<le> 90) \<or> (97 \<le> c \<and> c \<le> 122) \<or> (12449 \<le> c \<and> c \<le> 12538)),
      p_N = is_digit,
      parseInt = demo_parseInt,
      sanitizeHtml = strip_tags False,
      like_contains = contains,
      column_defaults =
        \<lparr>a_id = 0, a_title_romaji = None, a_title_english = None, a_title_native = None,
         a_description = None, a_genres = None, a_cover_image = None, a_banner_image = None,
         a_episodes = None\<rparr>\<rparr>"

definition naruto_title :: media_title where
  "naruto_title = \<lparr>romaji = Some (ustr ''Naruto''), english = None,
                    native = Some [12490, 12523, 12488]\<rparr>"

definition naruto :: media where
  "naruto =
     \<lparr>m_id = 20,
      m_title = Some naruto_title,
      m_description = Some (ustr ''A <b>ninja</b> story''),
      m_genres = Some [ustr ''Action'', ustr ''Adventure''],
      m_episodes = Some 220,
      m_coverImage = Some (Some (ustr ''cover.jpg'')),
      m_bannerImage = None,
      m_streamingEpisodes =
        Some [\<lparr>se_title = Some (ustr ''Enter Naruto''), se_thumbnail = Some (ustr ''t1.jpg'')\<rparr>,
              \<lparr>se_title = None, se_thumbnail = None\<rparr>]\<rparr>"

definition bleach_title :: media_title where
  "bleach_title = \<lparr>romaji = None, english = Some (ustr ''Bleach''), native = None\<rparr>"

definition bleach :: media where
  "bleach =
     \<lparr>m_id = 269,
      m_title = Some bleach_title,
      m_description = None, m_genres = None, m_episodes = None, m_coverImage = None,
      m_bannerImage = None, m_streamingEpisodes = None\<rparr>"

text \<open>
  A world where nothing fails: the database accepts every statement, AniList knows the two
  anime above, DeepL answers with the text wrapped in brackets.
\<close>

definition demo_world :: world where
  "demo_world =
     \<lparr>db_fails = (\<lambda>stmt. False),
      anilist_media = (\<lambda>search. if search = ustr ''Naruto'' then Inr (Some naruto) else Inr None),
      anilist_page = (\<lambda>search pg per. Inr (Some (Some [naruto, bleach]))),
      deepl = (\<lambda>k text lang. FetchResponse True (BodyTranslations [Some ([91] @ text @ [93])]))\<rparr>"

text \<open>Stores and requests: defaults for page and limit unless said otherwise.\<close>

definition empty_db :: db where
  "empty_db = \<lparr>t_animes = [], t_anime_episodes = []\<rparr>"

definition get_request :: "ustring \<Rightarrow> request" where
  "get_request q =
     \<lparr>rq_query = QStr q, rq_page = QMissing, rq_limit = QMissing, rq_perPage = QMissing\<rparr>"

definition blank_request :: request where
  "blank_request =
     \<lparr>rq_query = QStr [32, 9, 12288], rq_page = QStr (ustr ''2''), rq_limit = QMissing,
      rq_perPage = QMissing\<rparr>"

definition paged_request :: request where
  "paged_request =
     \<lparr>rq_query = QStr (ustr ''Naruto''), rq_page = QStr (ustr ''3''),
      rq_limit = QStr (ustr ''5''), rq_perPage = QMissing\<rparr>"

text \<open>A query with punctuation, markup, katakana, and white space at both ends.\<close>

definition dirty_query :: ustring where
  "dirty_query = [32] @ ustr ''Naruto: <'' @ [12490, 12523, 12488] @ ustr ''>!? 2'' @ [9, 32]"

definition clean_query :: ustring where
  "clean_query = ustr ''Naruto '' @ [12490, 12523, 12488] @ ustr '' 2''"

text \<open>What the run for ``Naruto'' on the empty store writes, and the calls it makes first.\<close>

definition naruto_episodes :: "episode_row list" where
  "naruto_episodes =
     [\<lparr>e_anime_id = 20, e_episode_number = 1, e_title_romaji = Some (ustr ''Enter Naruto''),
       e_title_translated = Some (ustr ''[Enter Naruto]''),
       e_thumbnail_image = Some (ustr ''t1.jpg'')\<rparr>,
      \<lparr>e_anime_id = 20, e_episode_number = 2, e_title_romaji = None,
       e_title_translated = Some (ustr ''[]''), e_thumbnail_image = None\<rparr>]"

definition naruto_row :: anime_row where
  "naruto_row =
     \<lparr>a_id = 20, a_title_romaji = Some (ustr ''Naruto''), a_title_english = Some (ustr ''N/A''),
      a_title_native = Some [12490, 12523, 12488],
      a_description = Some (ustr ''[A ninja story]''),
      a_genres = Some (ustr ''Action, Adventure''),
      a_cover_image = Some (ustr ''cover.jpg''), a_banner_image = None,
      a_episodes = Some 220\<rparr>"

definition naruto_db :: db where
  "naruto_db = \<lparr>t_animes = [naruto_row], t_anime_episodes = naruto_episodes\<rparr>"

definition naruto_calls :: "event list" where
  "naruto_calls =
     [DbQuery (SelectAnimes (ustr ''Naruto'') (Some 10) (Some 0)),
      GraphqlMedia (ustr ''Naruto''),
      DeeplFetch (ustr ''A <b>ninja</b> story'') (ustr ''PT-BR''),
      DeeplFetch (ustr ''Enter Naruto'') (ustr ''PT-BR''),
      DeeplFetch [] (ustr ''PT-BR'')]"

text \<open>The rows the paginated search writes for the two anime.\<close>

definition naruto_titles_row :: anime_row where
  "naruto_titles_row =
     \<lparr>a_id = 20, a_title_romaji = Some (ustr ''Naruto''), a_title_english = Some (ustr ''N/A''),
      a_title_native = Some [12490, 12523, 12488], a_description = None, a_genres = None,
      a_cover_image = None, a_banner_image = None, a_episodes = None\<rparr>"

definition bleach_row :: anime_row where
  "bleach_row =
     \<lparr>a_id = 269, a_title_romaji = None, a_title_english = Some (ustr ''Bleach''),
      a_title_native = None, a_description = None, a_genres = None, a_cover_image = None,
      a_banner_image = None, a_episodes = None\<rparr>"

text \<open>
  Worlds where one thing goes wrong: the database rejects the episode batch, or the upsert
  of the anime; DeepL answers the first call with a failure status and drops the others.
\<close>

fun is_episodes_upsert :: "db_stmt \<Rightarrow> bool" where
  "is_episodes_upsert (UpsertEpisodes values) = True"
| "is_episodes_upsert stmt = False"

fun is_anime_upsert :: "db_stmt \<Rightarrow> bool" where
  "is_anime_upsert (UpsertAnime row) = True"
| "is_anime_upsert stmt = False"

definition episodes_rejected :: world where
  "episodes_rejected = demo_world\<lparr>db_fails := is_episodes_upsert\<rparr>"

definition anime_rejected :: world where
  "anime_rejected = demo_world\<lparr>db_fails := is_anime_upsert\<rparr>"

definition deepl_down :: world where
  "deepl_down =
     demo_world\<lparr>deepl := (\<lambda>k text lang. if k = 0 then FetchResponse False BodyNotJson
                                    else FetchRejected)\<rparr>"

text \<open>
  Worlds where AniList has changed its answer: a new description and episode count for the
  same identifier, and new titles in the page of the paginated search.
\<close>

definition naruto_renewed :: media where
  "naruto_renewed =
     naruto\<lparr>m_description := Some (ustr ''Second''), m_episodes := Some 221,
            m_streamingEpisodes := None\<rparr>"

definition renewed_world :: world where
  "renewed_world = demo_world\<lparr>anilist_media := (\<lambda>search. Inr (Some naruto_renewed))\<rparr>"

definition renewed_row :: anime_row where
  "renewed_row = naruto_row\<lparr>a_description := Some (ustr ''[Second]''), a_episodes := Some 221\<rparr>"

definition naruto_retitled :: media where
  "naruto_retitled =
     naruto\<lparr>m_title := Some \<lparr>romaji = Some (ustr ''NARUTO''), english = Some (ustr ''Naruto''),
                              native = None\<rparr>,
            m_description := Some (ustr ''other'')\<rparr>"

definition retitled_world :: world where
  "retitled_world =
     demo_world\<lparr>anilist_page := (\<lambda>search pg per. Inr (Some (Some [naruto_retitled, bleach])))\<rparr>"

definition retitled_row :: anime_row where
  "retitled_row =
     naruto_row\<lparr>a_title_romaji := Some (ustr ''NARUTO''), a_title_english := Some (ustr ''Naruto''),
                a_title_native := None\<rparr>"

section \<open>Runs of the handler bodies\<close>

lemma ustr_simps: "ustr [] = []" "ustr (c # cs) = of_char c # ustr cs"
  by (simp_all add: ustr_def)

lemma translateText_run:
  "translateText W k text l s = (Inr (translated W k text l), emit (DeeplFetch text l) s)"
  by (simp add: translateText_def translated_def split: sum.splits)

lemma io_all_resolved:
  "io_all (map (\<lambda>x s. (Inr (f x), s\<lparr>st_trace := st_trace s @ [g x]\<rparr>)) xs) s =
     (Inr (map f xs), s\<lparr>st_trace := st_trace s @ map g xs\<rparr>)"
  by (induction xs arbitrary: s) simp_all

lemma title_action:
  "(\<lambda>(k, ep). io_bind (translateText W k (or_else (e_title_romaji ep) []) (ustr ''PT-BR''))
                 (\<lambda>translatedTitle.
                    io_return (str_or (sanitizeHtml P translatedTitle) sem_titulo)))
   = (\<lambda>x s. (Inr ((\<lambda>(k, ep). str_or (sanitizeHtml P
                (translated W k (or_else (e_title_romaji ep) []) (ustr ''PT-BR''))) sem_titulo) x),
        s\<lparr>st_trace := st_trace s @
           [(\<lambda>(k, ep). DeeplFetch (or_else (e_title_romaji ep) []) (ustr ''PT-BR'')) x]\<rparr>))"
  by (rule ext, rule ext)
     (simp add: io_bind_def io_return_def translateText_run emit_def split: prod.splits)

lemma title_calls_enumerate:
  "map (\<lambda>(k, ep). DeeplFetch (or_else (e_title_romaji ep) []) (ustr ''PT-BR''))
     (enumerate n episodes) = title_calls episodes"
  by (induction episodes arbitrary: n) (simp_all add: title_calls_def)

lemma translatedTitles_run:
  "translatedTitles P W episodes s =
     (Inr (episode_titles P W episodes), s\<lparr>st_trace := st_trace s @ title_calls episodes\<rparr>)"
  unfolding translatedTitles_def episode_titles_def title_action
  by (simp only: io_all_resolved title_calls_enumerate)

lemma name_from_api_run:
  "name_from_api P W anime s =
     (let eps = episodeValues P W anime;
          cd = cleanDescription P W anime;
          s1 = s\<lparr>st_trace := st_trace s @ deepl_calls anime\<rparr>
      in if eps \<noteq> [] \<and> db_fails W (UpsertEpisodes eps)
         then (Inl DbError, emit (DbQuery (UpsertEpisodes eps)) s1)
         else (case m_title anime of
                 None \<Rightarrow> (Inl TypeError, episodes_stored eps s1)
               | Some title \<Rightarrow>
                   if db_fails W (UpsertAnime (anime_params anime title cd))
                   then (Inl DbError,
                         emit (DbQuery (UpsertAnime (anime_params anime title cd)))
                           (episodes_stored eps s1))
                   else (Inr \<lparr>status = 200,
                              body = DetailBody (ustr ''api'') [api_result anime title cd eps]
                                       (Some 1) (Some 1)\<rparr>,
                         anime_stored (anime_params anime title cd) (episodes_stored eps s1))))"
  by (simp add: name_from_api_def io_bind_def io_return_def io_throw_def translateText_run
      translatedTitles_run pool_query_def emit_def Let_def cleanDescription_def
      episodeValues_def deepl_calls_def episodes_stored_def anime_stored_def
      split: option.splits)

lemma io_all_selects:
  "io_all
     (map (\<lambda>anime.
             io_bind
               (pool_query W (SelectEpisodes (a_id anime))
                  (\<lambda>d. Some (select_episodes_rows (a_id anime) d)) (\<lambda>d. d))
               (\<lambda>episodes. io_return (FromDb anime episodes)))
          rows) s =
   (if \<exists>anime \<in> set rows. db_fails W (SelectEpisodes (a_id anime)) then Inl DbError
    else Inr (db_results (st_db s) rows),
    s\<lparr>st_trace := st_trace s @ episode_calls rows\<rparr>)"
proof (induction rows arbitrary: s)
  case Nil
  then show ?case by (simp add: db_results_def episode_calls_def)
next
  case (Cons anime rows)
  have step: "io_bind
               (pool_query W (SelectEpisodes (a_id anime))
                  (\<lambda>d. Some (select_episodes_rows (a_id anime) d)) (\<lambda>d. d))
               (\<lambda>episodes. io_return (FromDb anime episodes)) s =
             (if db_fails W (SelectEpisodes (a_id anime)) then Inl DbError
              else Inr (FromDb anime (select_episodes_rows (a_id anime) (st_db s))),
              emit (DbQuery (SelectEpisodes (a_id anime))) s)"
    by (simp add: io_bind_def io_return_def pool_query_def Let_def emit_def)
  show ?case
    by (simp add: step Cons.IH emit_def db_results_def episode_calls_def)
qed

lemma name_from_db_run:
  "name_from_db W rows pg lim s =
     (if \<exists>anime \<in> set rows. db_fails W (SelectEpisodes (a_id anime)) then Inl DbError
      else Inr \<lparr>status = 200,
                body = DetailBody (ustr ''database'') (db_results (st_db s) rows) pg lim\<rparr>,
      s\<lparr>st_trace := st_trace s @ episode_calls rows\<rparr>)"
  by (simp add: name_from_db_def io_bind_def [of "io_all _"] io_all_selects io_return_def)

lemma name_try_run:
  "name_try P W req sq s =
     (let s0 = emit (DbQuery (name_select P req sq)) s
      in if db_fails W (name_select P req sq) then (Inl DbError, s0)
         else (case name_rows P req sq (st_db s) of
                 None \<Rightarrow> (Inl DbError, s0)
               | Some rows \<Rightarrow>
                   if rows \<noteq> []
                   then name_from_db W rows (param_int P 1 (rq_page req))
                          (param_int P 10 (rq_limit req)) s0
                   else (case anilist_media W sq of
                           Inl e \<Rightarrow> (Inl e, emit (GraphqlMedia sq) s0)
                         | Inr None \<Rightarrow>
                             (Inr \<lparr>status = 404, body = ErrorBody anime_nao_encontrado\<rparr>,
                              emit (GraphqlMedia sq) s0)
                         | Inr (Some anime) \<Rightarrow>
                             name_from_api P W anime (emit (GraphqlMedia sq) s0))))"
  by (simp add: name_try_def Let_def io_bind_def pool_query_def name_select_def name_rows_def
      graphql_media_def io_return_def emit_def
      split: option.splits sum.splits)

lemma search_titles_run:
  "search_titles_try P W sq s =
     (if db_fails W (SelectTitles sq) then Inl DbError
      else Inr \<lparr>status = 200,
                body = (if select_titles_rows P sq (st_db s) \<noteq> []
                        then TitlesBody (ustr ''database'') (select_titles_rows P sq (st_db s)) None
                        else TitlesBody (ustr ''database'') [] (Some nenhum_titulo))\<rparr>,
      emit (DbQuery (SelectTitles sq)) s)"
  by (simp add: search_titles_try_def io_bind_def pool_query_def Let_def io_return_def emit_def)

lemma search_api_run:
  "search_api_try P W req sq s =
     (let s0 = emit (GraphqlPage sq (param_int P 1 (rq_page req))
                       (param_int P 10 (rq_perPage req))) s
      in case anilist_page W sq (param_int P 1 (rq_page req)) (param_int P 10 (rq_perPage req)) of
           Inl e \<Rightarrow> (Inl e, s0)
         | Inr None \<Rightarrow> (Inl TypeError, s0)
         | Inr (Some None) \<Rightarrow> (Inr \<lparr>status = 404, body = ErrorBody nenhum_anime\<rparr>, s0)
         | Inr (Some (Some found)) \<Rightarrow>
             if found = [] then (Inr \<lparr>status = 404, body = ErrorBody nenhum_anime\<rparr>, s0)
             else (case animeValues found of
                     None \<Rightarrow> (Inl TypeError, s0)
                   | Some values \<Rightarrow>
                       if db_fails W (UpsertTitles values)
                       then (Inl DbError, emit (DbQuery (UpsertTitles values)) s0)
                       else (Inr \<lparr>status = 200,
                                  body = TitlesBody (ustr ''api'') (map title_summary found) None\<rparr>,
                             (emit (DbQuery (UpsertTitles values)) s0)
                               \<lparr>st_db := (st_db s)\<lparr>t_animes :=
                                   upsert_titles (column_defaults P) values
                                     (t_animes (st_db s))\<rparr>\<rparr>)))"
  by (simp add: search_api_try_def io_bind_def graphql_page_def Let_def io_throw_def
      io_return_def pool_query_def emit_def split: sum.splits option.splits)

lemma not_a_query:
  assumes "rq_query req = QMissing \<or> (\<exists>qs. rq_query req = QArr qs) \<or>
           (\<exists>q. rq_query req = QStr q \<and> trim q = [])"
  shows "anime_search_titles P W req d = bad_request d"
    and "anime_search_api P W req d = bad_request d"
    and "anime_name P W req d = bad_request d"
  using assms
  by (auto simp: anime_search_titles_def anime_search_api_def anime_name_def)

lemma anime_name_api:
  assumes "reaches_api P W req d q anime"
  shows "anime_name P W req d =
           finish (name_from_api P W anime
                     \<lparr>st_db = d,
                      st_trace = [DbQuery (name_select P req (sanitizeQuery P q)),
                                  GraphqlMedia (sanitizeQuery P q)]\<rparr>)"
  using assms
  by (simp add: reaches_api_def anime_name_def run_handler_def name_try_run emit_def)

lemma upsert_episodes_none [simp]: "upsert_episodes [] rows = rows"
  by simp

lemma anime_name_api_outcome:
  assumes "reaches_api P W req d q anime"
  shows "anime_name P W req d =
     (let eps = episodeValues P W anime;
          cd = cleanDescription P W anime;
          pre = miss_prefix P req q anime;
          d1 = d\<lparr>t_anime_episodes := upsert_episodes eps (t_anime_episodes d)\<rparr>;
          failed = \<lparr>status = 500, body = ErrorBody erro_interno\<rparr>
      in if eps \<noteq> [] \<and> db_fails W (UpsertEpisodes eps)
         then \<lparr>sent = failed, db_after = d, calls = pre @ [DbQuery (UpsertEpisodes eps)]\<rparr>
         else (case m_title anime of
                 None \<Rightarrow> \<lparr>sent = failed, db_after = d1, calls = pre @ episodes_call eps\<rparr>
               | Some title \<Rightarrow>
                   if db_fails W (UpsertAnime (anime_params anime title cd))
                   then \<lparr>sent = failed, db_after = d1,
                         calls = pre @ episodes_call eps @
                                 [DbQuery (UpsertAnime (anime_params anime title cd))]\<rparr>
                   else \<lparr>sent = \<lparr>status = 200,
                                  body = DetailBody (ustr ''api'')
                                           [api_result anime title cd eps] (Some 1) (Some 1)\<rparr>,
                         db_after = d1\<lparr>t_animes := upsert_anime (anime_params anime title cd)
                                                      (t_animes d)\<rparr>,
                         calls = pre @ episodes_call eps @
                                 [DbQuery (UpsertAnime (anime_params anime title cd))]\<rparr>))"
  unfolding anime_name_api [OF assms] name_from_api_run
  by (simp add: finish_def Let_def emit_def episodes_stored_def anime_stored_def miss_prefix_def
      episodes_call_def split: option.splits)

lemma api_success:
  assumes "reaches_api P W req d q anime"
      and "status (sent (anime_name P W req d)) = 200"
  obtains title where "m_title anime = Some title"
    and "anime_name P W req d =
      \<lparr>sent = \<lparr>status = 200,
                body = DetailBody (ustr ''api'')
                         [api_result anime title (cleanDescription P W anime)
                            (episodeValues P W anime)]
                         (Some 1) (Some 1)\<rparr>,
       db_after = d\<lparr>t_anime_episodes := upsert_episodes (episodeValues P W anime)
                                            (t_anime_episodes d),
                    t_animes := upsert_anime
                                  (anime_params anime title (cleanDescription P W anime))
                                  (t_animes d)\<rparr>,
       calls = miss_prefix P req q anime @ episodes_call (episodeValues P W anime) @
               [DbQuery (UpsertAnime (anime_params anime title (cleanDescription P W anime)))]\<rparr>"
proof -
  let ?eps = "episodeValues P W anime"
  have ok: "\<not> (?eps \<noteq> [] \<and> db_fails W (UpsertEpisodes ?eps))"
    using assms(2) unfolding anime_name_api_outcome [OF assms(1)] by (auto simp: Let_def)
  obtain title where title: "m_title anime = Some title"
    using assms(2) ok unfolding anime_name_api_outcome [OF assms(1)]
    by (cases "m_title anime") (auto simp: Let_def)
  have ok2: "\<not> db_fails W (UpsertAnime (anime_params anime title (cleanDescription P W anime)))"
    using assms(2) ok title unfolding anime_name_api_outcome [OF assms(1)]
    by (auto simp: Let_def)
  show thesis
    by (rule that [OF title]) 
       (use ok ok2 title in \<open>simp add: anime_name_api_outcome [OF assms(1)] Let_def\<close>)
qed

lemma animeValues_ids: "animeValues found = Some vals \<Longrightarrow> map fst vals = map m_id found"
  by (induction found arbitrary: vals) (auto split: option.splits)

lemma animeValues_mem:
  "animeValues found = Some vals \<Longrightarrow> anime \<in> set found \<Longrightarrow> m_title anime = Some title \<Longrightarrow>
     title_values anime title \<in> set vals"
  by (induction found arbitrary: vals) (auto simp: title_values_def split: option.splits)

lemma search_api_ok:
  assumes "rq_query req = QStr q" and "trim q \<noteq> []"
      and "status (sent (anime_search_api P W req d)) = 200"
  obtains found vals where "api_page P W req q = Inr (Some (Some found))"
    and "found \<noteq> []" and "animeValues found = Some vals"
    and "\<not> db_fails W (UpsertTitles vals)"
    and "anime_search_api P W req d =
           \<lparr>sent = \<lparr>status = 200,
                     body = TitlesBody (ustr ''api'') (map title_summary found) None\<rparr>,
            db_after = d\<lparr>t_animes := upsert_titles (column_defaults P) vals (t_animes d)\<rparr>,
            calls = [page_call P req q, DbQuery (UpsertTitles vals)]\<rparr>"
  using assms
  by (auto simp: anime_search_api_def run_handler_def search_api_run finish_def Let_def
      api_page_def page_call_def emit_def
      split: sum.splits option.splits if_splits)

lemma search_api_outcome:
  assumes "rq_query req = QStr q" and "trim q \<noteq> []"
      and "api_page P W req q = Inr (Some (Some found))" and "found \<noteq> []"
      and "animeValues found = Some vals" and "\<not> db_fails W (UpsertTitles vals)"
  shows "anime_search_api P W req d =
           \<lparr>sent = \<lparr>status = 200,
                     body = TitlesBody (ustr ''api'') (map title_summary found) None\<rparr>,
            db_after = d\<lparr>t_animes := upsert_titles (column_defaults P) vals (t_animes d)\<rparr>,
            calls = [page_call P req q, DbQuery (UpsertTitles vals)]\<rparr>"
  using assms
  by (simp add: anime_search_api_def run_handler_def search_api_run finish_def Let_def
      api_page_def page_call_def emit_def)

lemma not_in_episode_calls: "GraphqlMedia search \<notin> set (episode_calls rows)"
  by (auto simp: episode_calls_def)

lemma no_upsert_in_prefix: "DbQuery (UpsertAnime row) \<notin> set (miss_prefix P req q anime)"
  by (auto simp: miss_prefix_def deepl_calls_def title_calls_def name_select_def)

lemma searched_episode_calls: "ev \<in> set (episode_calls rows) \<Longrightarrow> searched ev = None"
  by (auto simp: episode_calls_def)

lemma searched_deepl_calls: "ev \<in> set (deepl_calls anime) \<Longrightarrow> searched ev = None"
  by (auto simp: deepl_calls_def title_calls_def)

section \<open>The upserts\<close>

lemma upsert_episode_mem: "v \<in> set (upsert_episode v rows)"
  by (induction rows) (simp_all add: episode_row.equality)

lemma upsert_episode_keeps:
  "r \<in> set rows \<Longrightarrow> episode_key r \<noteq> episode_key v \<Longrightarrow> r \<in> set (upsert_episode v rows)"
  by (induction rows) (auto simp: episode_key_def)

lemma upsert_episodes_keeps:
  "r \<in> set rows \<Longrightarrow> episode_key r \<notin> episode_key ` set vs \<Longrightarrow> r \<in> set (upsert_episodes vs rows)"
  by (induction vs arbitrary: rows) (auto simp: upsert_episode_keeps)

lemma upsert_episodes_mem:
  "distinct (map episode_key vs) \<Longrightarrow> set vs \<subseteq> set (upsert_episodes vs rows)"
proof (induction vs arbitrary: rows)
  case Nil
  then show ?case by simp
next
  case (Cons v vs)
  have "v \<in> set (upsert_episodes vs (upsert_episode v rows))"
    using Cons.prems by (intro upsert_episodes_keeps upsert_episode_mem) simp
  moreover have "set vs \<subseteq> set (upsert_episodes vs (upsert_episode v rows))"
    using Cons.prems by (intro Cons.IH) simp
  ultimately show ?case by simp
qed

lemma upsert_episode_others:
  "filter (\<lambda>r. episode_key r \<noteq> episode_key v) (upsert_episode v rows) =
   filter (\<lambda>r. episode_key r \<noteq> episode_key v) rows"
  by (induction rows) (auto simp: episode_key_def)

lemma upsert_episodes_others:
  "filter (\<lambda>r. episode_key r \<notin> episode_key ` set vs) (upsert_episodes vs rows) =
   filter (\<lambda>r. episode_key r \<notin> episode_key ` set vs) rows"
proof (induction vs arbitrary: rows)
  case Nil
  then show ?case by simp
next
  case (Cons v vs)
  have "filter (\<lambda>r. episode_key r \<notin> episode_key ` set (v # vs)) (upsert_episodes (v # vs) rows)
        = filter (\<lambda>r. episode_key r \<noteq> episode_key v)
            (filter (\<lambda>r. episode_key r \<notin> episode_key ` set vs)
               (upsert_episodes vs (upsert_episode v rows)))"
    by (auto intro: filter_cong)
  also have "\<dots> = filter (\<lambda>r. episode_key r \<noteq> episode_key v)
            (filter (\<lambda>r. episode_key r \<notin> episode_key ` set vs) (upsert_episode v rows))"
    by (simp only: Cons.IH)
  also have "\<dots> = filter (\<lambda>r. episode_key r \<notin> episode_key ` set vs)
            (filter (\<lambda>r. episode_key r \<noteq> episode_key v) (upsert_episode v rows))"
    by (auto intro: filter_cong)
  also have "\<dots> = filter (\<lambda>r. episode_key r \<notin> episode_key ` set vs)
            (filter (\<lambda>r. episode_key r \<noteq> episode_key v) rows)"
    by (simp only: upsert_episode_others)
  also have "\<dots> = filter (\<lambda>r. episode_key r \<notin> episode_key ` set (v # vs)) rows"
    by (auto intro: filter_cong)
  finally show ?case .
qed

lemma upsert_anime_mem: "v \<in> set (upsert_anime v rows)"
  by (induction rows) (simp_all add: anime_row.equality)

lemma upsert_anime_ids:
  "a_id ` set (upsert_anime v rows) = insert (a_id v) (a_id ` set rows)"
  by (induction rows) auto

lemma upsert_anime_distinct:
  "distinct (map a_id rows) \<Longrightarrow> distinct (map a_id (upsert_anime v rows))"
  by (induction rows) (auto simp: upsert_anime_ids)

lemma upsert_anime_others:
  "filter (\<lambda>r. a_id r \<noteq> a_id v) (upsert_anime v rows) = filter (\<lambda>r. a_id r \<noteq> a_id v) rows"
  by (induction rows) auto

lemma filter_absent: "i \<notin> a_id ` set rows \<Longrightarrow> filter (\<lambda>r. a_id r = i) rows = []"
  by (induction rows) auto

lemma upsert_anime_filter:
  "distinct (map a_id rows) \<Longrightarrow> filter (\<lambda>r. a_id r = a_id v) (upsert_anime v rows) = [v]"
  by (induction rows) (auto simp: anime_row.equality filter_absent)

lemma upsert_anime_length:
  "a_id v \<in> a_id ` set rows \<Longrightarrow> length (upsert_anime v rows) = length rows"
  by (induction rows) auto

lemma upsert_title_row_frame:
  "\<exists>new. map other_columns (upsert_title_row dflt v rows) = map other_columns rows @ new"
proof (cases v)
  case (fields i ro en na)
  show ?thesis
    unfolding fields by (induction rows) (auto simp: other_columns_def)
qed

lemma upsert_titles_frame:
  "\<exists>new. map other_columns (upsert_titles dflt vs rows) = map other_columns rows @ new"
proof (induction vs arbitrary: rows)
  case Nil
  then show ?case by simp
next
  case (Cons v vs)
  obtain new1 where one: "map other_columns (upsert_title_row dflt v rows) =
                          map other_columns rows @ new1"
    using upsert_title_row_frame by blast
  obtain new2 where "map other_columns (upsert_titles dflt vs (upsert_title_row dflt v rows)) =
                     map other_columns (upsert_title_row dflt v rows) @ new2"
    using Cons.IH by blast
  with one show ?case by simp
qed

lemma upsert_title_row_mem: "\<exists>r \<in> set (upsert_title_row dflt v rows). title_cols r = v"
proof (cases v)
  case (fields i ro en na)
  show ?thesis
    unfolding fields by (induction rows) (auto simp: title_cols_def)
qed

lemma upsert_title_row_keeps:
  "r \<in> set rows \<Longrightarrow> a_id r \<noteq> fst v \<Longrightarrow> r \<in> set (upsert_title_row dflt v rows)"
proof (cases v)
  case (fields i ro en na)
  assume "r \<in> set rows" and "a_id r \<noteq> fst v"
  then show ?thesis
    unfolding fields by (induction rows) auto
qed

lemma upsert_titles_keeps:
  "r \<in> set rows \<Longrightarrow> a_id r \<notin> fst ` set vs \<Longrightarrow> r \<in> set (upsert_titles dflt vs rows)"
  by (induction vs arbitrary: rows) (auto simp: upsert_title_row_keeps)

lemma upsert_titles_mem:
  "distinct (map fst vs) \<Longrightarrow> v \<in> set vs \<Longrightarrow>
     \<exists>r \<in> set (upsert_titles dflt vs rows). title_cols r = v"
proof (induction vs arbitrary: rows)
  case Nil
  then show ?case by simp
next
  case (Cons w vs)
  show ?case
  proof (cases "v = w")
    case True
    obtain r where r: "r \<in> set (upsert_title_row dflt w rows)" "title_cols r = w"
      using upsert_title_row_mem by blast
    then have "a_id r = fst w"
      by (auto simp: title_cols_def)
    with Cons.prems(1) have "a_id r \<notin> fst ` set vs"
      by simp
    with r(1) have "r \<in> set (upsert_titles dflt vs (upsert_title_row dflt w rows))"
      by (rule upsert_titles_keeps)
    with r(2) True show ?thesis by auto
  next
    case False
    with Cons.prems have "v \<in> set vs" and "distinct (map fst vs)"
      by simp_all
    then show ?thesis
      using Cons.IH by simp
  qed
qed

lemma upsert_title_row_ids:
  "a_id ` set (upsert_title_row dflt v rows) = insert (fst v) (a_id ` set rows)"
proof (cases v)
  case (fields i ro en na)
  show ?thesis
    unfolding fields by (induction rows) auto
qed

lemma upsert_titles_ids:
  "a_id ` set (upsert_titles dflt vs rows) = fst ` set vs \<union> a_id ` set rows"
  by (induction vs arbitrary: rows) (auto simp: upsert_title_row_ids)

lemma upsert_title_row_others:
  "filter (\<lambda>r. a_id r \<noteq> fst v) (upsert_title_row dflt v rows) =
   filter (\<lambda>r. a_id r \<noteq> fst v) rows"
proof (cases v)
  case (fields i ro en na)
  show ?thesis
    unfolding fields by (induction rows) auto
qed

lemma upsert_titles_others:
  "filter (\<lambda>r. a_id r \<notin> fst ` set vs) (upsert_titles dflt vs rows) =
   filter (\<lambda>r. a_id r \<notin> fst ` set vs) rows"
proof (induction vs arbitrary: rows)
  case Nil
  then show ?case by simp
next
  case (Cons v vs)
  have "filter (\<lambda>r. a_id r \<notin> fst ` set (v # vs)) (upsert_titles dflt (v # vs) rows)
        = filter (\<lambda>r. a_id r \<noteq> fst v)
            (filter (\<lambda>r. a_id r \<notin> fst ` set vs)
               (upsert_titles dflt vs (upsert_title_row dflt v rows)))"
    by (auto intro: filter_cong)
  also have "\<dots> = filter (\<lambda>r. a_id r \<noteq> fst v)
            (filter (\<lambda>r. a_id r \<notin> fst ` set vs) (upsert_title_row dflt v rows))"
    by (simp only: Cons.IH)
  also have "\<dots> = filter (\<lambda>r. a_id r \<notin> fst ` set vs)
            (filter (\<lambda>r. a_id r \<noteq> fst v) (upsert_title_row dflt v rows))"
    by (auto intro: filter_cong)
  also have "\<dots> = filter (\<lambda>r. a_id r \<notin> fst ` set vs)
            (filter (\<lambda>r. a_id r \<noteq> fst v) rows)"
    by (simp only: upsert_title_row_others)
  also have "\<dots> = filter (\<lambda>r. a_id r \<notin> fst ` set (v # vs)) rows"
    by (auto intro: filter_cong)
  finally show ?case .
qed

section \<open>The episodes of the cache-miss branch\<close>

lemma upto_from_one: "map (\<lambda>i. int i + 1) [0..<n] = [1..int n]"
  by (induction n) (simp_all add: upto_rec2)

lemma enumerate_numbers: "map (\<lambda>(i, x). int i + 1) (enumerate 0 xs) = [1..int (length xs)]"
proof -
  have "map (\<lambda>(i, x). int i + 1) (enumerate 0 xs) = map (\<lambda>i. int i + 1) (map fst (enumerate 0 xs))"
    unfolding map_map by (simp add: case_prod_unfold comp_def)
  then show ?thesis by (simp add: upto_from_one)
qed

lemma length_episodes_of: "length (episodes_of anime) = length (streaming anime)"
  by (simp add: episodes_of_def streaming_def split: option.splits)

lemma numbers_episodes_of:
  "map e_episode_number (episodes_of anime) = [1..int (length (streaming anime))]"
proof (cases "m_streamingEpisodes anime")
  case None
  then show ?thesis by (simp add: episodes_of_def streaming_def)
next
  case (Some eps)
  have "map e_episode_number (episodes_of anime) = map (\<lambda>(i, x). int i + 1) (enumerate 0 eps)"
    by (simp add: episodes_of_def Some case_prod_unfold)
  then show ?thesis by (simp add: enumerate_numbers streaming_def Some)
qed

lemma nth_episodes_of:
  assumes "i < length (streaming anime)"
  shows "episodes_of anime ! i =
           \<lparr>e_anime_id = m_id anime, e_episode_number = int i + 1,
            e_title_romaji = or_null (se_title (streaming anime ! i)),
            e_title_translated = None,
            e_thumbnail_image = or_null (se_thumbnail (streaming anime ! i))\<rparr>"
  using assms
  by (simp add: episodes_of_def streaming_def nth_enumerate_eq split: option.splits)

lemma length_episode_titles: "length (episode_titles P W episodes) = length episodes"
  by (simp add: episode_titles_def)

lemma length_episodeValues: "length (episodeValues P W anime) = length (streaming anime)"
  by (simp add: episodeValues_def with_titles_def length_episode_titles length_episodes_of)

lemma nth_episodeValues:
  assumes "i < length (streaming anime)"
  shows "episodeValues P W anime ! i =
           (episodes_of anime ! i)\<lparr>e_title_translated := Some (episode_titles P W (episodes_of anime) ! i)\<rparr>"
  using assms
  by (simp add: episodeValues_def with_titles_def length_episode_titles length_episodes_of)

lemma numbers_episodeValues:
  "map e_episode_number (episodeValues P W anime) = [1..int (length (streaming anime))]"
proof -
  have "map e_episode_number (episodeValues P W anime) = map e_episode_number (episodes_of anime)"
    by (rule nth_equalityI)
       (simp_all add: length_episodeValues length_episodes_of nth_episodeValues)
  then show ?thesis by (simp add: numbers_episodes_of)
qed

lemma distinct_keys_episodeValues: "distinct (map episode_key (episodeValues P W anime))"
proof -
  have "distinct (map e_episode_number (episodeValues P W anime))"
    by (simp add: numbers_episodeValues)
  moreover have "map e_episode_number (episodeValues P W anime) =
                 map snd (map episode_key (episodeValues P W anime))"
    by (simp add: episode_key_def comp_def)
  ultimately show ?thesis by (metis distinct_map)
qed

section \<open>Trimming\<close>

lemma trim_parts:
  "\<exists>pre suf. s = pre @ trim s @ suf \<and> (\<forall>c \<in> set pre. isWhiteSpace c) \<and>
             (\<forall>c \<in> set suf. isWhiteSpace c)"
proof -
  let ?s1 = "dropWhile isWhiteSpace s"
  let ?pre = "takeWhile isWhiteSpace s"
  let ?suf = "rev (takeWhile isWhiteSpace (rev ?s1))"
  have "trim s @ ?suf =
        rev (takeWhile isWhiteSpace (rev ?s1) @ dropWhile isWhiteSpace (rev ?s1))"
    by (simp only: trim_def rev_append)
  also have "\<dots> = rev (rev ?s1)"
    by (simp only: takeWhile_dropWhile_id)
  also have "\<dots> = ?s1"
    by simp
  finally have "?s1 = trim s @ ?suf"
    by simp
  then have "s = ?pre @ trim s @ ?suf"
    by (metis takeWhile_dropWhile_id)
  moreover have "\<forall>c \<in> set ?pre. isWhiteSpace c"
    by (auto dest: set_takeWhileD)
  moreover have "\<forall>c \<in> set ?suf. isWhiteSpace c"
    by (auto dest: set_takeWhileD)
  ultimately show ?thesis by blast
qed

lemma trim_ends:
  assumes "trim s \<noteq> []"
  shows "\<not> isWhiteSpace (hd (trim s))" and "\<not> isWhiteSpace (last (trim s))"
proof -
  let ?s1 = "dropWhile isWhiteSpace s"
  let ?r = "dropWhile isWhiteSpace (rev ?s1)"
  from assms have r: "?r \<noteq> []"
    by (simp add: trim_def)
  have s1: "?s1 \<noteq> []"
    using r by (metis rev.simps(1) dropWhile.simps(1))
  have "last (trim s) = hd ?r"
    using r by (simp add: trim_def last_rev)
  then show "\<not> isWhiteSpace (last (trim s))"
    using r by (simp add: hd_dropWhile)
  have "hd (trim s) = last ?r"
    using r by (simp add: trim_def hd_rev)
  also have "\<dots> = last (rev ?s1)"
    using r by (metis takeWhile_dropWhile_id last_appendR)
  also have "\<dots> = hd ?s1"
    using s1 by (simp add: last_rev)
  finally show "\<not> isWhiteSpace (hd (trim s))"
    using s1 by (simp add: hd_dropWhile)
qed

lemma set_trim: "set (trim s) \<subseteq> set s"
  using trim_parts [of s] by (metis Un_iff set_append subsetI)

lemma filter_trim:
  "filter (\<lambda>c. \<not> isWhiteSpace c) (trim s) = filter (\<lambda>c. \<not> isWhiteSpace c) s"
proof -
  obtain pre suf where s: "s = pre @ trim s @ suf"
    and pre: "\<forall>c \<in> set pre. isWhiteSpace c" and suf: "\<forall>c \<in> set suf. isWhiteSpace c"
    using trim_parts by blast
  have "filter (\<lambda>c. \<not> isWhiteSpace c) pre = []" "filter (\<lambda>c. \<not> isWhiteSpace c) suf = []"
    using pre suf by (simp_all add: filter_empty_conv)
  then have "filter (\<lambda>c. \<not> isWhiteSpace c) (pre @ trim s @ suf) =
             filter (\<lambda>c. \<not> isWhiteSpace c) (trim s)"
    by simp
  with s show ?thesis by simp
qed

section \<open>The example runs\<close>

lemma sanitize_naruto: "sanitizeQuery demo_platform (ustr ''Naruto'') = ustr ''Naruto''"
  by (simp add: sanitizeQuery_def trim_def demo_platform_def isWhiteSpace_def is_digit_def ustr_simps)

lemma trim_naruto: "trim (ustr ''Naruto'') \<noteq> []"
  by (simp add: trim_def isWhiteSpace_def ustr_simps)

lemma naruto_query: "rq_query (get_request (ustr ''Naruto'')) = QStr (ustr ''Naruto'')"
  by (simp add: get_request_def)

lemma demo_world_simps [simp]:
  "db_fails demo_world = (\<lambda>stmt. False)"
  "anilist_media demo_world (ustr ''Naruto'') = Inr (Some naruto)"
  "deepl demo_world k text lang = FetchResponse True (BodyTranslations [Some ([91] @ text @ [93])])"
  by (simp_all add: demo_world_def)

lemma demo_defaults:
  "column_defaults demo_platform =
     \<lparr>a_id = 0, a_title_romaji = None, a_title_english = None, a_title_native = None,
      a_description = None, a_genres = None, a_cover_image = None, a_banner_image = None,
      a_episodes = None\<rparr>"
  by (simp add: demo_platform_def)

lemma naruto_reaches:
  assumes "anilist_media W (ustr ''Naruto'') = Inr (Some naruto)"
      and "\<not> db_fails W (name_select demo_platform (get_request (ustr ''Naruto'')) (ustr ''Naruto''))"
  shows "reaches_api demo_platform W (get_request (ustr ''Naruto'')) empty_db (ustr ''Naruto'') naruto"
  using assms
  by (simp add: reaches_api_def sanitize_naruto trim_naruto get_request_def name_rows_def
      select_animes_rows_def param_int_def offset_of_def empty_db_def)

lemma naruto_episodeValues:
  assumes "deepl W = deepl demo_world"
  shows "episodeValues demo_platform W naruto = naruto_episodes"
  by (simp add: episodeValues_def episodes_of_def naruto_def naruto_title_def with_titles_def episode_titles_def
      enumerate_eq_zip translated_def translate_try_def assms or_null_def or_else_def str_or_def
      demo_platform_def naruto_episodes_def sem_titulo_def ustr_simps)

lemma naruto_cleanDescription:
  assumes "deepl W = deepl demo_world"
  shows "cleanDescription demo_platform W naruto = ustr ''[A ninja story]''"
  by (simp add: cleanDescription_def naruto_def naruto_title_def translated_def translate_try_def assms
      or_else_def str_or_def demo_platform_def ustr_simps)

lemma naruto_m_title: "m_title naruto = Some naruto_title"
  by (simp add: naruto_def naruto_title_def)

lemma naruto_params: "anime_params naruto naruto_title (ustr ''[A ninja story]'') = naruto_row"
  by (simp add: anime_params_def naruto_def naruto_title_def naruto_row_def or_null_def
      or_else_def str_or_def sem_descricao_def generos_desconhecidos_def ustr_simps)

lemma naruto_prefix:
  "miss_prefix demo_platform (get_request (ustr ''Naruto'')) (ustr ''Naruto'') naruto = naruto_calls"
  unfolding miss_prefix_def sanitize_naruto
  by (simp add: name_select_def get_request_def param_int_def
      offset_of_def deepl_calls_def title_calls_def episodes_of_def naruto_def naruto_title_def or_else_def
      or_null_def str_or_def enumerate_eq_zip naruto_calls_def ustr_simps)

lemma naruto_upserts:
  "upsert_episodes naruto_episodes [] = naruto_episodes"
  "upsert_anime naruto_row [] = [naruto_row]"
  by (simp_all add: naruto_episodes_def)

lemma naruto_episodes_nonempty: "naruto_episodes \<noteq> []"
  by (simp add: naruto_episodes_def)

lemma demo_world_reaches:
  "reaches_api demo_platform demo_world (get_request (ustr ''Naruto'')) empty_db
     (ustr ''Naruto'') naruto"
  by (rule naruto_reaches) simp_all

lemma episodes_rejected_reaches:
  "reaches_api demo_platform episodes_rejected (get_request (ustr ''Naruto'')) empty_db
     (ustr ''Naruto'') naruto"
  by (rule naruto_reaches) (simp_all add: episodes_rejected_def name_select_def)

lemma anime_rejected_reaches:
  "reaches_api demo_platform anime_rejected (get_request (ustr ''Naruto'')) empty_db
     (ustr ''Naruto'') naruto"
  by (rule naruto_reaches) (simp_all add: anime_rejected_def name_select_def)

lemma deepl_down_reaches:
  "reaches_api demo_platform deepl_down (get_request (ustr ''Naruto'')) empty_db
     (ustr ''Naruto'') naruto"
  by (rule naruto_reaches) (simp_all add: deepl_down_def)

lemma naruto_run:
  "anime_name demo_platform demo_world (get_request (ustr ''Naruto'')) empty_db =
     \<lparr>sent = \<lparr>status = 200,
               body = DetailBody (ustr ''api'')
                        [api_result naruto naruto_title (ustr ''[A ninja story]'') naruto_episodes]
                        (Some 1) (Some 1)\<rparr>,
      db_after = naruto_db,
      calls = naruto_calls @
              [DbQuery (UpsertEpisodes naruto_episodes), DbQuery (UpsertAnime naruto_row)]\<rparr>"
proof -
  have eps: "episodeValues demo_platform demo_world naruto = naruto_episodes"
    by (rule naruto_episodeValues) simp
  have cd: "cleanDescription demo_platform demo_world naruto = ustr ''[A ninja story]''"
    by (rule naruto_cleanDescription) simp
  show ?thesis
    unfolding anime_name_api_outcome [OF demo_world_reaches]
    by (simp add: Let_def eps cd naruto_m_title naruto_params naruto_prefix episodes_call_def
        naruto_episodes_nonempty naruto_upserts empty_db_def naruto_db_def)
qed

lemma paged_params:
  "param_int demo_platform 1 (rq_page paged_request) = Some 3"
  "param_int demo_platform 10 (rq_limit paged_request) = Some 5"
  by (simp_all add: paged_request_def param_int_def demo_platform_def demo_parseInt_def
      parse_decimal_def digits_value_def is_digit_def isWhiteSpace_def ustr_simps)

lemma paged_reaches:
  "reaches_api demo_platform demo_world paged_request empty_db (ustr ''Naruto'') naruto"
  unfolding reaches_api_def sanitize_naruto
  by (simp add: trim_naruto name_rows_def name_select_def paged_params offset_of_def
      select_animes_rows_def empty_db_def)
     (simp add: paged_request_def)

lemma sanitize_ninja: "sanitizeQuery demo_platform (ustr ''Ninja'') = ustr ''Ninja''"
  by (simp add: sanitizeQuery_def trim_def demo_platform_def isWhiteSpace_def is_digit_def
      ustr_simps)

lemma trim_ninja: "trim (ustr ''Ninja'') \<noteq> []"
  by (simp add: trim_def isWhiteSpace_def ustr_simps)

lemma ninja_misses: "name_rows demo_platform (get_request (ustr ''Ninja'')) (ustr ''Ninja'') naruto_db = Some []"
  by (simp add: name_rows_def get_request_def param_int_def offset_of_def select_animes_rows_def
      naruto_db_def title_match_def col_like_def naruto_row_def demo_platform_def ustr_simps)

lemma renewed_reaches:
  "reaches_api demo_platform renewed_world (get_request (ustr ''Ninja'')) naruto_db
     (ustr ''Ninja'') naruto_renewed"
  unfolding reaches_api_def sanitize_ninja
  by (simp add: trim_ninja ninja_misses renewed_world_def) (simp add: get_request_def)

lemma renewed_values:
  "episodeValues demo_platform renewed_world naruto_renewed = []"
  "anime_params naruto_renewed naruto_title (cleanDescription demo_platform renewed_world naruto_renewed)
     = renewed_row"
  by (simp_all add: episodeValues_def episodes_of_def naruto_renewed_def with_titles_def
      episode_titles_def cleanDescription_def translated_def translate_try_def renewed_world_def
      anime_params_def naruto_def naruto_title_def renewed_row_def naruto_row_def
      or_null_def or_else_def str_or_def demo_platform_def sem_descricao_def
      generos_desconhecidos_def ustr_simps)

lemma renewed_title: "m_title naruto_renewed = Some naruto_title"
  by (simp add: naruto_renewed_def naruto_m_title)

lemma retitled_values:
  "animeValues [naruto_retitled, bleach] =
     Some [(20, Some (ustr ''NARUTO''), Some (ustr ''Naruto''), None),
           (269, None, Some (ustr ''Bleach''), None)]"
  by (simp add: naruto_retitled_def bleach_def bleach_title_def naruto_def naruto_title_def or_null_def or_else_def str_or_def
      ustr_simps)

lemma demo_values:
  "animeValues [naruto, bleach] =
     Some [(20, Some (ustr ''Naruto''), Some (ustr ''N/A''), Some [12490, 12523, 12488]),
           (269, None, Some (ustr ''Bleach''), None)]"
  by (simp add: bleach_def bleach_title_def naruto_def naruto_title_def or_null_def or_else_def str_or_def ustr_simps)

lemma retitled_run:
  "anime_search_api demo_platform retitled_world (get_request (ustr ''Naruto'')) naruto_db =
     \<lparr>sent = \<lparr>status = 200,
               body = TitlesBody (ustr ''api'') (map title_summary [naruto_retitled, bleach]) None\<rparr>,
      db_after = \<lparr>t_animes = [retitled_row, bleach_row], t_anime_episodes = naruto_episodes\<rparr>,
      calls = [GraphqlPage (ustr ''Naruto'') (Some 1) (Some 10),
               DbQuery (UpsertTitles [(20, Some (ustr ''NARUTO''), Some (ustr ''Naruto''), None),
                                      (269, None, Some (ustr ''Bleach''), None)])]\<rparr>"
proof -
  have page: "api_page demo_platform retitled_world (get_request (ustr ''Naruto'')) (ustr ''Naruto'')
                = Inr (Some (Some [naruto_retitled, bleach]))"
    by (simp add: api_page_def retitled_world_def)
  have ok: "\<not> db_fails retitled_world
               (UpsertTitles [(20, Some (ustr ''NARUTO''), Some (ustr ''Naruto''), None),
                              (269, None, Some (ustr ''Bleach''), None)])"
    by (simp add: retitled_world_def)
  show ?thesis
    unfolding search_api_outcome [OF naruto_query trim_naruto page _ retitled_values ok, simplified]
    by (simp add: page_call_def sanitize_naruto get_request_def param_int_def naruto_db_def
        demo_defaults naruto_row_def retitled_row_def bleach_row_def)
qed

lemma demo_page:
  "api_page demo_platform demo_world (get_request (ustr ''Naruto'')) (ustr ''Naruto'') =
     Inr (Some (Some [naruto, bleach]))"
  by (simp add: api_page_def demo_world_def)

lemma demo_search_run:
  "anime_search_api demo_platform demo_world (get_request (ustr ''Naruto'')) empty_db =
     \<lparr>sent = \<lparr>status = 200,
               body = TitlesBody (ustr ''api'') (map title_summary [naruto, bleach]) None\<rparr>,
      db_after = \<lparr>t_animes = [naruto_titles_row, bleach_row], t_anime_episodes = []\<rparr>,
      calls = [GraphqlPage (ustr ''Naruto'') (Some 1) (Some 10),
               DbQuery (UpsertTitles
                          [(20, Some (ustr ''Naruto''), Some (ustr ''N/A''),
                            Some [12490, 12523, 12488]),
                           (269, None, Some (ustr ''Bleach''), None)])]\<rparr>"
proof -
  have ok: "\<not> db_fails demo_world
               (UpsertTitles [(20, Some (ustr ''Naruto''), Some (ustr ''N/A''),
                               Some [12490, 12523, 12488]),
                              (269, None, Some (ustr ''Bleach''), None)])"
    by simp
  show ?thesis
    unfolding search_api_outcome [OF naruto_query trim_naruto demo_page _ demo_values ok, simplified]
    by (simp add: page_call_def sanitize_naruto get_request_def param_int_def empty_db_def
        demo_defaults naruto_titles_row_def bleach_row_def)
qed

lemma titles_missing:
  "missing (romaji bleach_title)" "\<not> missing (english bleach_title)"
  "missing (native bleach_title)"
  "\<not> missing (romaji naruto_title)" "missing (english naruto_title)"
  "\<not> missing (native naruto_title)"
  by (simp_all add: missing_def bleach_title_def naruto_title_def ustr_simps)

lemma strip_unavailable: "sanitizeHtml demo_platform unavailable = unavailable"
  by (simp add: demo_platform_def unavailable_def ustr_simps)

lemma sanitize_dirty: "sanitizeQuery demo_platform dirty_query = clean_query"
  by (simp add: sanitizeQuery_def trim_def demo_platform_def isWhiteSpace_def is_digit_def
      dirty_query_def clean_query_def ustr_simps)

lemma trim_dirty: "trim dirty_query \<noteq> []"
  by (simp add: trim_def isWhiteSpace_def dirty_query_def ustr_simps)

section \<open>Order of the two upserts (C1)\<close>

text \<open>
  C1 as stated fails: with a database that rejects the episode batch upsert, the request
  for ``Naruto'' on an empty store ends with 500 right after that statement, no anime upsert
  was sent, and no anime row is in the store.
\<close>

theorem anime_row_absent_counterexample:
  "db_fails episodes_rejected (UpsertEpisodes naruto_episodes) \<and>
   calls (anime_name demo_platform episodes_rejected (get_request (ustr ''Naruto'')) empty_db) =
     naruto_calls @ [DbQuery (UpsertEpisodes naruto_episodes)] \<and>
   status (sent (anime_name demo_platform episodes_rejected (get_request (ustr ''Naruto''))
                   empty_db)) = 500 \<and>
   t_animes (db_after (anime_name demo_platform episodes_rejected
                         (get_request (ustr ''Naruto'')) empty_db)) = []"
proof -
  have eps: "episodeValues demo_platform episodes_rejected naruto = naruto_episodes"
    by (rule naruto_episodeValues) (simp add: episodes_rejected_def)
  have fails: "db_fails episodes_rejected (UpsertEpisodes naruto_episodes)"
    by (simp add: episodes_rejected_def)
  show ?thesis
    unfolding anime_name_api_outcome [OF episodes_rejected_reaches]
    by (simp add: Let_def eps fails naruto_episodes_nonempty naruto_prefix empty_db_def)
qed

text \<open>
  C1, as the code has it. On the cache-miss path the episode records are persisted first,
  by one batch upsert (issued only when there is at least one episode), and the anime record
  by its upsert after that. When the episode batch upsert fails, the request ends with 500
  before any anime upsert is issued, and the store is left unchanged. When the episode batch
  upsert has succeeded (or was skipped) and the anime upsert fails, the request ends with
  500 and the episode rows already committed stay, while the table of anime is unchanged.
\<close>

theorem episodes_before_anime:
  assumes "reaches_api P W req d q anime"
  shows "(episodeValues P W anime \<noteq> [] \<and> db_fails W (UpsertEpisodes (episodeValues P W anime)) \<longrightarrow>
            status (sent (anime_name P W req d)) = 500 \<and>
            db_after (anime_name P W req d) = d \<and>
            calls (anime_name P W req d) =
              miss_prefix P req q anime @ [DbQuery (UpsertEpisodes (episodeValues P W anime))] \<and>
            (\<forall>row. DbQuery (UpsertAnime row) \<notin> set (calls (anime_name P W req d)))) \<and>
         (\<forall>title.
            \<not> (episodeValues P W anime \<noteq> [] \<and> db_fails W (UpsertEpisodes (episodeValues P W anime))) \<and>
            m_title anime = Some title \<longrightarrow>
              calls (anime_name P W req d) =
                miss_prefix P req q anime @ episodes_call (episodeValues P W anime) @
                [DbQuery (UpsertAnime (anime_params anime title (cleanDescription P W anime)))] \<and>
              t_anime_episodes (db_after (anime_name P W req d)) =
                upsert_episodes (episodeValues P W anime) (t_anime_episodes d) \<and>
              (if db_fails W (UpsertAnime (anime_params anime title (cleanDescription P W anime)))
               then status (sent (anime_name P W req d)) = 500 \<and>
                    t_animes (db_after (anime_name P W req d)) = t_animes d
               else status (sent (anime_name P W req d)) = 200 \<and>
                    t_animes (db_after (anime_name P W req d)) =
                      upsert_anime (anime_params anime title (cleanDescription P W anime))
                        (t_animes d)))"
  unfolding anime_name_api_outcome [OF assms]
  by (simp add: Let_def no_upsert_in_prefix)

theorem episodes_before_anime_witness:
  "reaches_api demo_platform episodes_rejected (get_request (ustr ''Naruto'')) empty_db
     (ustr ''Naruto'') naruto \<and>
   episodeValues demo_platform episodes_rejected naruto = naruto_episodes \<and>
   naruto_episodes \<noteq> [] \<and>
   db_fails episodes_rejected (UpsertEpisodes naruto_episodes) \<and>
   status (sent (anime_name demo_platform episodes_rejected (get_request (ustr ''Naruto''))
                   empty_db)) = 500 \<and>
   db_after (anime_name demo_platform episodes_rejected (get_request (ustr ''Naruto''))
               empty_db) = empty_db \<and>
   reaches_api demo_platform anime_rejected (get_request (ustr ''Naruto'')) empty_db
     (ustr ''Naruto'') naruto \<and>
   \<not> db_fails anime_rejected (UpsertEpisodes naruto_episodes) \<and>
   m_title naruto = Some naruto_title \<and>
   db_fails anime_rejected (UpsertAnime naruto_row) \<and>
   calls (anime_name demo_platform anime_rejected (get_request (ustr ''Naruto'')) empty_db) =
     naruto_calls @ [DbQuery (UpsertEpisodes naruto_episodes), DbQuery (UpsertAnime naruto_row)] \<and>
   status (sent (anime_name demo_platform anime_rejected (get_request (ustr ''Naruto''))
                   empty_db)) = 500 \<and>
   db_after (anime_name demo_platform anime_rejected (get_request (ustr ''Naruto''))
               empty_db) = \<lparr>t_animes = [], t_anime_episodes = naruto_episodes\<rparr>"
proof -
  have eps1: "episodeValues demo_platform episodes_rejected naruto = naruto_episodes"
    by (rule naruto_episodeValues) (simp add: episodes_rejected_def)
  have eps2: "episodeValues demo_platform anime_rejected naruto = naruto_episodes"
    by (rule naruto_episodeValues) (simp add: anime_rejected_def)
  have cd2: "cleanDescription demo_platform anime_rejected naruto = ustr ''[A ninja story]''"
    by (rule naruto_cleanDescription) (simp add: anime_rejected_def)
  have fails1: "db_fails episodes_rejected (UpsertEpisodes naruto_episodes)"
    by (simp add: episodes_rejected_def)
  have fails2: "\<not> db_fails anime_rejected (UpsertEpisodes naruto_episodes)"
               "db_fails anime_rejected (UpsertAnime naruto_row)"
    by (simp_all add: anime_rejected_def)
  have first: "status (sent (anime_name demo_platform episodes_rejected
                               (get_request (ustr ''Naruto'')) empty_db)) = 500 \<and>
               db_after (anime_name demo_platform episodes_rejected
                           (get_request (ustr ''Naruto'')) empty_db) = empty_db"
    using episodes_before_anime [OF episodes_rejected_reaches] fails1 naruto_episodes_nonempty
    by (simp add: eps1)
  have second:
    "calls (anime_name demo_platform anime_rejected (get_request (ustr ''Naruto'')) empty_db) =
       naruto_calls @ [DbQuery (UpsertEpisodes naruto_episodes), DbQuery (UpsertAnime naruto_row)] \<and>
     status (sent (anime_name demo_platform anime_rejected (get_request (ustr ''Naruto''))
                     empty_db)) = 500 \<and>
     db_after (anime_name demo_platform anime_rejected (get_request (ustr ''Naruto''))
                 empty_db) = \<lparr>t_animes = [], t_anime_episodes = naruto_episodes\<rparr>"
    using episodes_before_anime [OF anime_rejected_reaches] fails2 naruto_m_title
    by (simp add: eps2 cd2 naruto_params naruto_prefix episodes_call_def
        naruto_episodes_nonempty naruto_upserts empty_db_def db.equality)
  from first second show ?thesis
    using episodes_rejected_reaches anime_rejected_reaches eps1 naruto_episodes_nonempty fails1
      fails2 naruto_m_title
    by simp
qed

section \<open>Translation never aborts the request (C2)\<close>

lemma unavailable_nonempty: "unavailable \<noteq> []"
  by (simp add: unavailable_def ustr_simps)

lemma translated_unavailable:
  assumes "deepl W k text lang = FetchRejected \<or> (\<exists>b. deepl W k text lang = FetchResponse False b)"
  shows "translated W k text lang = unavailable"
  using assms by (auto simp: translated_def translate_try_def)

text \<open>
  C2. For every input text and target language \<^verbatim>\<open>translateText\<close> resolves to a string
  and never rejects; when \<^verbatim>\<open>fetch\<close> fails or the response is not a success, the string
  is the fixed fallback. In the combined lookup, when the translation of the description
  fails that way (with a database that accepts the statements, an upstream title that is not
  null, and a sanitizer that leaves the markup-free fallback as it is), the request still
  ends with status 200 and both the returned and the stored description are the fallback.
\<close>

theorem translation_never_aborts:
  "(\<exists>t. fst (translateText W k input lang s) = Inr t) \<and>
   (deepl W k input lang = FetchRejected \<or> (\<exists>b. deepl W k input lang = FetchResponse False b) \<longrightarrow>
      fst (translateText W k input lang s) = Inr unavailable) \<and>
   (reaches_api P W req d q anime \<and>
    (deepl W 0 (or_else (m_description anime) []) (ustr ''PT-BR'') = FetchRejected \<or>
     (\<exists>b. deepl W 0 (or_else (m_description anime) []) (ustr ''PT-BR'') = FetchResponse False b)) \<and>
    sanitizeHtml P unavailable = unavailable \<and>
    (\<forall>stmt. \<not> db_fails W stmt) \<and> m_title anime \<noteq> None \<longrightarrow>
      status (sent (anime_name P W req d)) = 200 \<and>
      (\<exists>a es. body (sent (anime_name P W req d)) =
                 DetailBody (ustr ''api'') [FromApi a es] (Some 1) (Some 1) \<and>
               r_description a = unavailable) \<and>
      (\<exists>row \<in> set (t_animes (db_after (anime_name P W req d))).
         a_id row = m_id anime \<and> a_description row = Some unavailable))"
proof (intro conjI impI)
  show "\<exists>t. fst (translateText W k input lang s) = Inr t"
    by (simp add: translateText_run)
next
  assume "deepl W k input lang = FetchRejected \<or> (\<exists>b. deepl W k input lang = FetchResponse False b)"
  then show "fst (translateText W k input lang s) = Inr unavailable"
    by (simp add: translateText_run translated_unavailable)
next
  assume a: "reaches_api P W req d q anime \<and>
    (deepl W 0 (or_else (m_description anime) []) (ustr ''PT-BR'') = FetchRejected \<or>
     (\<exists>b. deepl W 0 (or_else (m_description anime) []) (ustr ''PT-BR'') = FetchResponse False b)) \<and>
    sanitizeHtml P unavailable = unavailable \<and>
    (\<forall>stmt. \<not> db_fails W stmt) \<and> m_title anime \<noteq> None"
  then obtain title where title: "m_title anime = Some title"
    by auto
  from a have cd: "cleanDescription P W anime = unavailable"
    by (simp add: cleanDescription_def translated_unavailable)
  have out: "anime_name P W req d =
      \<lparr>sent = \<lparr>status = 200,
                body = DetailBody (ustr ''api'')
                         [api_result anime title unavailable (episodeValues P W anime)]
                         (Some 1) (Some 1)\<rparr>,
       db_after = d\<lparr>t_anime_episodes := upsert_episodes (episodeValues P W anime)
                                            (t_anime_episodes d),
                    t_animes := upsert_anime (anime_params anime title unavailable) (t_animes d)\<rparr>,
       calls = miss_prefix P req q anime @ episodes_call (episodeValues P W anime) @
               [DbQuery (UpsertAnime (anime_params anime title unavailable))]\<rparr>"
  proof -
    from a have r: "reaches_api P W req d q anime" by simp
    show ?thesis
      using a title by (simp add: anime_name_api_outcome [OF r] Let_def cd)
  qed
  show "status (sent (anime_name P W req d)) = 200"
    by (simp add: out)
  show "\<exists>a es. body (sent (anime_name P W req d)) =
                 DetailBody (ustr ''api'') [FromApi a es] (Some 1) (Some 1) \<and>
               r_description a = unavailable"
    by (simp add: out api_result_def)
  have "anime_params anime title unavailable
          \<in> set (t_animes (db_after (anime_name P W req d)))"
    by (simp add: out upsert_anime_mem)
  moreover have "a_id (anime_params anime title unavailable) = m_id anime"
    and "a_description (anime_params anime title unavailable) = Some unavailable"
    by (simp_all add: anime_params_def str_or_def unavailable_nonempty)
  ultimately show "\<exists>row \<in> set (t_animes (db_after (anime_name P W req d))).
         a_id row = m_id anime \<and> a_description row = Some unavailable"
    by blast
qed

theorem translation_never_aborts_witness:
  "deepl deepl_down 0 (ustr ''A <b>ninja</b> story'') (ustr ''PT-BR'') =
     FetchResponse False BodyNotJson \<and>
   fst (translateText deepl_down 0 (ustr ''A <b>ninja</b> story'') (ustr ''PT-BR'')
          \<lparr>st_db = empty_db, st_trace = []\<rparr>) = Inr unavailable \<and>
   reaches_api demo_platform deepl_down (get_request (ustr ''Naruto'')) empty_db
     (ustr ''Naruto'') naruto \<and>
   sanitizeHtml demo_platform unavailable = unavailable \<and>
   status (sent (anime_name demo_platform deepl_down (get_request (ustr ''Naruto''))
                   empty_db)) = 200 \<and>
   (\<exists>a es. body (sent (anime_name demo_platform deepl_down (get_request (ustr ''Naruto''))
                         empty_db)) =
              DetailBody (ustr ''api'') [FromApi a es] (Some 1) (Some 1) \<and>
            r_description a = unavailable) \<and>
   (\<exists>row \<in> set (t_animes (db_after (anime_name demo_platform deepl_down
                                       (get_request (ustr ''Naruto'')) empty_db))).
      a_id row = 20 \<and> a_description row = Some unavailable)"
proof -
  have down: "deepl deepl_down 0 (ustr ''A <b>ninja</b> story'') (ustr ''PT-BR'') =
                FetchResponse False BodyNotJson"
    by (simp add: deepl_down_def)
  have descr: "or_else (m_description naruto) [] = ustr ''A <b>ninja</b> story''"
    by (simp add: naruto_def naruto_title_def or_else_def str_or_def ustr_simps)
  have db: "\<forall>stmt. \<not> db_fails deepl_down stmt"
    by (simp add: deepl_down_def)
  have title: "m_title naruto \<noteq> None"
    by (simp add: naruto_m_title)
  have id: "m_id naruto = 20"
    by (simp add: naruto_def naruto_title_def)
  from translation_never_aborts
         [where W = deepl_down and k = 0 and input = "ustr ''A <b>ninja</b> story''"
            and lang = "ustr ''PT-BR''" and s = "\<lparr>st_db = empty_db, st_trace = []\<rparr>"
            and P = demo_platform and req = "get_request (ustr ''Naruto'')" and d = empty_db
            and q = "ustr ''Naruto''" and anime = naruto]
       down deepl_down_reaches strip_unavailable db title
  show ?thesis
    by (simp add: descr id)
qed

section \<open>Episode numbers (C3)\<close>

text \<open>
  C3. For an upstream answer with N streaming-episode entries, a successful cache-miss run
  numbers the episodes 1..N in the order of the listing: the episode at position \<open>i\<close>
  (from 0) gets number \<open>i + 1\<close> together with the title and thumbnail of the upstream
  entry at that position. These are the rows of the batch upsert, all of them are in the
  episode table afterwards, rows with other keys are untouched, and the reply lists the same
  numbers.
\<close>

theorem episodes_numbered_by_position:
  assumes "reaches_api P W req d q anime"
      and "status (sent (anime_name P W req d)) = 200"
  shows "map e_episode_number (episodeValues P W anime) = [1..int (length (streaming anime))] \<and>
         (\<forall>i < length (streaming anime).
            e_anime_id (episodeValues P W anime ! i) = m_id anime \<and>
            e_episode_number (episodeValues P W anime ! i) = int i + 1 \<and>
            e_title_romaji (episodeValues P W anime ! i) = or_null (se_title (streaming anime ! i)) \<and>
            e_thumbnail_image (episodeValues P W anime ! i) =
              or_null (se_thumbnail (streaming anime ! i))) \<and>
         (streaming anime \<noteq> [] \<longrightarrow>
            DbQuery (UpsertEpisodes (episodeValues P W anime)) \<in> set (calls (anime_name P W req d))) \<and>
         set (episodeValues P W anime) \<subseteq> set (t_anime_episodes (db_after (anime_name P W req d))) \<and>
         filter (\<lambda>r. episode_key r \<notin> episode_key ` set (episodeValues P W anime))
           (t_anime_episodes (db_after (anime_name P W req d))) =
         filter (\<lambda>r. episode_key r \<notin> episode_key ` set (episodeValues P W anime))
           (t_anime_episodes d) \<and>
         (\<exists>a es. body (sent (anime_name P W req d)) =
                    DetailBody (ustr ''api'') [FromApi a es] (Some 1) (Some 1) \<and>
                  map r_number es = [1..int (length (streaming anime))])"
proof -
  let ?eps = "episodeValues P W anime"
  let ?out = "anime_name P W req d"
  have ok: "\<not> (?eps \<noteq> [] \<and> db_fails W (UpsertEpisodes ?eps))"
    using assms(2) unfolding anime_name_api_outcome [OF assms(1)] by (auto simp: Let_def)
  obtain title where title: "m_title anime = Some title"
    using assms(2) ok unfolding anime_name_api_outcome [OF assms(1)]
    by (cases "m_title anime") (auto simp: Let_def)
  have ok2: "\<not> db_fails W (UpsertAnime (anime_params anime title (cleanDescription P W anime)))"
    using assms(2) ok title unfolding anime_name_api_outcome [OF assms(1)]
    by (auto simp: Let_def)
  have out: "?out =
      \<lparr>sent = \<lparr>status = 200,
                body = DetailBody (ustr ''api'')
                         [api_result anime title (cleanDescription P W anime) ?eps]
                         (Some 1) (Some 1)\<rparr>,
       db_after = d\<lparr>t_anime_episodes := upsert_episodes ?eps (t_anime_episodes d),
                    t_animes := upsert_anime (anime_params anime title (cleanDescription P W anime))
                                  (t_animes d)\<rparr>,
       calls = miss_prefix P req q anime @ episodes_call ?eps @
               [DbQuery (UpsertAnime (anime_params anime title (cleanDescription P W anime)))]\<rparr>"
    using ok ok2 title unfolding anime_name_api_outcome [OF assms(1)]
    by (simp add: Let_def)
  have numbers: "map e_episode_number ?eps = [1..int (length (streaming anime))]"
    by (rule numbers_episodeValues)
  have fields: "\<forall>i < length (streaming anime).
            e_anime_id (?eps ! i) = m_id anime \<and>
            e_episode_number (?eps ! i) = int i + 1 \<and>
            e_title_romaji (?eps ! i) = or_null (se_title (streaming anime ! i)) \<and>
            e_thumbnail_image (?eps ! i) = or_null (se_thumbnail (streaming anime ! i))"
    by (simp add: nth_episodeValues nth_episodes_of)
  have sent: "streaming anime \<noteq> [] \<longrightarrow> DbQuery (UpsertEpisodes ?eps) \<in> set (calls ?out)"
  proof
    assume "streaming anime \<noteq> []"
    then have "?eps \<noteq> []"
      using length_episodeValues [of P W anime] by auto
    then show "DbQuery (UpsertEpisodes ?eps) \<in> set (calls ?out)"
      by (simp add: out episodes_call_def)
  qed
  have stored: "set ?eps \<subseteq> set (t_anime_episodes (db_after ?out))"
    by (simp add: out upsert_episodes_mem distinct_keys_episodeValues)
  have others: "filter (\<lambda>r. episode_key r \<notin> episode_key ` set ?eps)
                  (t_anime_episodes (db_after ?out)) =
                filter (\<lambda>r. episode_key r \<notin> episode_key ` set ?eps) (t_anime_episodes d)"
    by (simp add: out upsert_episodes_others)
  have reply: "\<exists>a es. body (sent ?out) =
                    DetailBody (ustr ''api'') [FromApi a es] (Some 1) (Some 1) \<and>
                  map r_number es = [1..int (length (streaming anime))]"
    using numbers by (simp add: out api_result_def comp_def)
  from numbers fields sent stored others reply show ?thesis by blast
qed

theorem episodes_numbered_by_position_witness:
  "reaches_api demo_platform demo_world (get_request (ustr ''Naruto'')) empty_db
     (ustr ''Naruto'') naruto \<and>
   status (sent (anime_name demo_platform demo_world (get_request (ustr ''Naruto''))
                   empty_db)) = 200 \<and>
   length (streaming naruto) = 2 \<and>
   map e_episode_number (episodeValues demo_platform demo_world naruto) = [1, 2] \<and>
   episodeValues demo_platform demo_world naruto = naruto_episodes \<and>
   DbQuery (UpsertEpisodes naruto_episodes) \<in>
     set (calls (anime_name demo_platform demo_world (get_request (ustr ''Naruto'')) empty_db)) \<and>
   set naruto_episodes \<subseteq>
     set (t_anime_episodes (db_after (anime_name demo_platform demo_world
                                        (get_request (ustr ''Naruto'')) empty_db)))"
proof -
  have eps: "episodeValues demo_platform demo_world naruto = naruto_episodes"
    by (rule naruto_episodeValues) simp
  have two: "length (streaming naruto) = 2"
    by (simp add: streaming_def naruto_def naruto_title_def)
  have ok: "status (sent (anime_name demo_platform demo_world (get_request (ustr ''Naruto''))
                            empty_db)) = 200"
    unfolding anime_name_api_outcome [OF demo_world_reaches]
    by (simp add: Let_def naruto_m_title)
  from two have some: "streaming naruto \<noteq> []"
    by auto
  from episodes_numbered_by_position [OF demo_world_reaches ok] demo_world_reaches ok two eps some
  show ?thesis
    by (simp add: upto_rec1)
qed

section \<open>The anime upsert is keyed on the identifier (C4)\<close>

text \<open>
  C4. The upsert of the anime is keyed on the external identifier (the primary key of the
  spec's schema, which forbids two rows with one id). After two successful cache-miss runs
  that submit the same identifier, the store holds exactly one row with that identifier and
  it carries the values of the second submission; the second run adds no row, and rows with
  other identifiers are as they were before the first run.
\<close>

theorem anime_upsert_keyed_on_id:
  assumes "distinct (map a_id (t_animes d))"
      and "reaches_api P W1 req1 d q1 m1"
      and "status (sent (anime_name P W1 req1 d)) = 200"
      and "reaches_api P W2 req2 (db_after (anime_name P W1 req1 d)) q2 m2"
      and "status (sent (anime_name P W2 req2 (db_after (anime_name P W1 req1 d)))) = 200"
      and "m_id m1 = m_id m2"
      and "m_title m2 = Some t2"
  shows "filter (\<lambda>r. a_id r = m_id m2)
           (t_animes (db_after (anime_name P W2 req2 (db_after (anime_name P W1 req1 d))))) =
           [anime_params m2 t2 (cleanDescription P W2 m2)] \<and>
         length (t_animes (db_after (anime_name P W2 req2 (db_after (anime_name P W1 req1 d))))) =
           length (t_animes (db_after (anime_name P W1 req1 d))) \<and>
         filter (\<lambda>r. a_id r \<noteq> m_id m2)
           (t_animes (db_after (anime_name P W2 req2 (db_after (anime_name P W1 req1 d))))) =
           filter (\<lambda>r. a_id r \<noteq> m_id m2) (t_animes d)"
proof -
  let ?out1 = "anime_name P W1 req1 d"
  let ?out2 = "anime_name P W2 req2 (db_after ?out1)"
  obtain t1 where
    db1: "t_animes (db_after ?out1) =
            upsert_anime (anime_params m1 t1 (cleanDescription P W1 m1)) (t_animes d)"
    by (rule api_success [OF assms(2,3)]) simp
  obtain t2' where "m_title m2 = Some t2'" and
    db2': "t_animes (db_after ?out2) =
            upsert_anime (anime_params m2 t2' (cleanDescription P W2 m2))
              (t_animes (db_after ?out1))"
    by (rule api_success [OF assms(4,5)]) simp
  with assms(7) have
    db2: "t_animes (db_after ?out2) =
            upsert_anime (anime_params m2 t2 (cleanDescription P W2 m2))
              (t_animes (db_after ?out1))"
    by simp
  let ?v1 = "anime_params m1 t1 (cleanDescription P W1 m1)"
  let ?v2 = "anime_params m2 t2 (cleanDescription P W2 m2)"
  have ids: "a_id ?v1 = m_id m2" "a_id ?v2 = m_id m2"
    using assms(6) by (simp_all add: anime_params_def)
  have d1: "distinct (map a_id (t_animes (db_after ?out1)))"
    unfolding db1 by (rule upsert_anime_distinct [OF assms(1)])
  have present: "a_id ?v2 \<in> a_id ` set (t_animes (db_after ?out1))"
    unfolding db1 by (simp add: upsert_anime_ids ids)
  have one: "filter (\<lambda>r. a_id r = m_id m2) (t_animes (db_after ?out2)) = [?v2]"
    using upsert_anime_filter [OF d1, of ?v2] by (simp add: db2 ids)
  have len: "length (t_animes (db_after ?out2)) = length (t_animes (db_after ?out1))"
    unfolding db2 by (rule upsert_anime_length [OF present])
  have "filter (\<lambda>r. a_id r \<noteq> m_id m2) (t_animes (db_after ?out2)) =
        filter (\<lambda>r. a_id r \<noteq> m_id m2) (t_animes (db_after ?out1))"
    using upsert_anime_others [of ?v2 "t_animes (db_after ?out1)"] by (simp add: db2 ids)
  also have "\<dots> = filter (\<lambda>r. a_id r \<noteq> m_id m2) (t_animes d)"
    using upsert_anime_others [of ?v1 "t_animes d"] by (simp add: db1 ids)
  finally have rest: "filter (\<lambda>r. a_id r \<noteq> m_id m2) (t_animes (db_after ?out2)) =
        filter (\<lambda>r. a_id r \<noteq> m_id m2) (t_animes d)" .
  from one len rest show ?thesis by simp
qed

theorem anime_upsert_keyed_on_id_witness:
  "distinct (map a_id (t_animes empty_db)) \<and>
   reaches_api demo_platform demo_world (get_request (ustr ''Naruto'')) empty_db
     (ustr ''Naruto'') naruto \<and>
   status (sent (anime_name demo_platform demo_world (get_request (ustr ''Naruto''))
                   empty_db)) = 200 \<and>
   reaches_api demo_platform renewed_world (get_request (ustr ''Ninja''))
     (db_after (anime_name demo_platform demo_world (get_request (ustr ''Naruto'')) empty_db))
     (ustr ''Ninja'') naruto_renewed \<and>
   status (sent (anime_name demo_platform renewed_world (get_request (ustr ''Ninja''))
                   (db_after (anime_name demo_platform demo_world
                                (get_request (ustr ''Naruto'')) empty_db)))) = 200 \<and>
   m_id naruto = m_id naruto_renewed \<and>
   m_title naruto_renewed = Some naruto_title \<and>
   renewed_row \<noteq> naruto_row \<and>
   t_animes (db_after (anime_name demo_platform demo_world (get_request (ustr ''Naruto''))
                         empty_db)) = [naruto_row] \<and>
   filter (\<lambda>r. a_id r = 20)
     (t_animes (db_after (anime_name demo_platform renewed_world (get_request (ustr ''Ninja''))
                            (db_after (anime_name demo_platform demo_world
                                         (get_request (ustr ''Naruto'')) empty_db))))) =
     [renewed_row] \<and>
   length (t_animes (db_after (anime_name demo_platform renewed_world
                                 (get_request (ustr ''Ninja''))
                                 (db_after (anime_name demo_platform demo_world
                                              (get_request (ustr ''Naruto'')) empty_db))))) = 1"
proof -
  let ?out1 = "anime_name demo_platform demo_world (get_request (ustr ''Naruto'')) empty_db"
  have pk: "distinct (map a_id (t_animes empty_db))"
    by (simp add: empty_db_def)
  have ok1: "status (sent ?out1) = 200"
    by (simp add: naruto_run)
  have db1: "db_after ?out1 = naruto_db"
    by (simp add: naruto_run)
  have r2: "reaches_api demo_platform renewed_world (get_request (ustr ''Ninja''))
              (db_after ?out1) (ustr ''Ninja'') naruto_renewed"
    unfolding db1 by (rule renewed_reaches)
  have ok2: "status (sent (anime_name demo_platform renewed_world (get_request (ustr ''Ninja''))
                             (db_after ?out1))) = 200"
    unfolding anime_name_api_outcome [OF r2]
    by (simp add: Let_def renewed_values renewed_title renewed_world_def)
  have same: "m_id naruto = m_id naruto_renewed"
    by (simp add: naruto_renewed_def)
  have twenty: "m_id naruto_renewed = 20"
    by (simp add: naruto_renewed_def naruto_def naruto_title_def)
  have differ: "renewed_row \<noteq> naruto_row"
    by (simp add: renewed_row_def naruto_row_def ustr_simps)
  from anime_upsert_keyed_on_id [OF pk demo_world_reaches ok1 r2 ok2 same renewed_title]
       pk demo_world_reaches ok1 r2 ok2 same renewed_title differ
  show ?thesis
    by (simp add: renewed_values twenty db1 naruto_db_def)
qed

section \<open>The paginated search writes titles only (C5)\<close>

text \<open>
  C5. A successful upstream paginated search sends one statement to the database, the batch
  upsert whose rows are the identifier and the three title values of the records of the
  page, in order. Afterwards every pre-existing row of \<^verbatim>\<open>animes\<close> is in its place with its
  identifier, description, genres, two images and episode count unchanged; every record of
  the page has a row with its identifier (carrying its title values when the identifiers of
  the page are distinct); rows whose identifier is not in the page, and the table of
  episodes, are untouched.
\<close>

theorem search_api_writes_titles_only:
  assumes "rq_query req = QStr q" and "trim q \<noteq> []"
      and "status (sent (anime_search_api P W req d)) = 200"
  shows "\<exists>found vals new.
           api_page P W req q = Inr (Some (Some found)) \<and>
           animeValues found = Some vals \<and> map fst vals = map m_id found \<and>
           calls (anime_search_api P W req d) = [page_call P req q, DbQuery (UpsertTitles vals)] \<and>
           map other_columns (t_animes (db_after (anime_search_api P W req d))) =
             map other_columns (t_animes d) @ new \<and>
           (\<forall>anime \<in> set found.
              \<exists>r \<in> set (t_animes (db_after (anime_search_api P W req d))). a_id r = m_id anime) \<and>
           (distinct (map m_id found) \<longrightarrow>
              (\<forall>v \<in> set vals.
                 \<exists>r \<in> set (t_animes (db_after (anime_search_api P W req d))). title_cols r = v)) \<and>
           filter (\<lambda>r. a_id r \<notin> m_id ` set found)
             (t_animes (db_after (anime_search_api P W req d))) =
             filter (\<lambda>r. a_id r \<notin> m_id ` set found) (t_animes d) \<and>
           t_anime_episodes (db_after (anime_search_api P W req d)) = t_anime_episodes d"
proof -
  obtain found vals where page: "api_page P W req q = Inr (Some (Some found))"
    and vals: "animeValues found = Some vals"
    and out: "anime_search_api P W req d =
           \<lparr>sent = \<lparr>status = 200,
                     body = TitlesBody (ustr ''api'') (map title_summary found) None\<rparr>,
            db_after = d\<lparr>t_animes := upsert_titles (column_defaults P) vals (t_animes d)\<rparr>,
            calls = [page_call P req q, DbQuery (UpsertTitles vals)]\<rparr>"
    by (rule search_api_ok [OF assms])
  have ids: "map fst vals = map m_id found"
    by (rule animeValues_ids [OF vals])
  then have idset: "fst ` set vals = m_id ` set found"
    by (metis set_map)
  obtain new where frame: "map other_columns (upsert_titles (column_defaults P) vals (t_animes d)) =
                           map other_columns (t_animes d) @ new"
    using upsert_titles_frame by blast
  have present: "\<forall>anime \<in> set found.
             \<exists>r \<in> set (upsert_titles (column_defaults P) vals (t_animes d)). a_id r = m_id anime"
  proof
    fix anime assume "anime \<in> set found"
    then have "m_id anime \<in> a_id ` set (upsert_titles (column_defaults P) vals (t_animes d))"
      by (simp add: upsert_titles_ids idset)
    then show "\<exists>r \<in> set (upsert_titles (column_defaults P) vals (t_animes d)). a_id r = m_id anime"
      by auto
  qed
  have others: "filter (\<lambda>r. a_id r \<notin> m_id ` set found)
                  (upsert_titles (column_defaults P) vals (t_animes d)) =
                filter (\<lambda>r. a_id r \<notin> m_id ` set found) (t_animes d)"
    using upsert_titles_others [of vals "column_defaults P" "t_animes d"] by (simp add: idset)
  have titles: "distinct (map m_id found) \<longrightarrow>
              (\<forall>v \<in> set vals.
                 \<exists>r \<in> set (upsert_titles (column_defaults P) vals (t_animes d)). title_cols r = v)"
    using upsert_titles_mem [of vals _ "column_defaults P" "t_animes d"] by (simp add: ids)
  from page vals ids frame present others titles show ?thesis
    by (simp add: out)
qed

theorem search_api_writes_titles_only_witness:
  "rq_query (get_request (ustr ''Naruto'')) = QStr (ustr ''Naruto'') \<and>
   trim (ustr ''Naruto'') \<noteq> [] \<and>
   status (sent (anime_search_api demo_platform retitled_world (get_request (ustr ''Naruto''))
                   naruto_db)) = 200 \<and>
   t_animes naruto_db = [naruto_row] \<and>
   t_animes (db_after (anime_search_api demo_platform retitled_world
                         (get_request (ustr ''Naruto'')) naruto_db)) =
     [retitled_row, bleach_row] \<and>
   title_cols retitled_row \<noteq> title_cols naruto_row \<and>
   other_columns retitled_row = other_columns naruto_row \<and>
   (\<exists>new. map other_columns
            (t_animes (db_after (anime_search_api demo_platform retitled_world
                                   (get_request (ustr ''Naruto'')) naruto_db))) =
          map other_columns (t_animes naruto_db) @ new) \<and>
   t_anime_episodes (db_after (anime_search_api demo_platform retitled_world
                                 (get_request (ustr ''Naruto'')) naruto_db)) =
     t_anime_episodes naruto_db"
proof -
  let ?out = "anime_search_api demo_platform retitled_world (get_request (ustr ''Naruto'')) naruto_db"
  have ok: "status (sent ?out) = 200"
    by (simp add: retitled_run)
  have rows: "t_animes naruto_db = [naruto_row]"
    by (simp add: naruto_db_def)
  have rows': "t_animes (db_after ?out) = [retitled_row, bleach_row]"
    by (simp add: retitled_run)
  have cols: "title_cols retitled_row \<noteq> title_cols naruto_row"
             "other_columns retitled_row = other_columns naruto_row"
    by (simp_all add: title_cols_def other_columns_def retitled_row_def naruto_row_def ustr_simps)
  from search_api_writes_titles_only [OF naruto_query trim_naruto ok]
  have "(\<exists>new. map other_columns (t_animes (db_after ?out)) =
                 map other_columns (t_animes naruto_db) @ new) \<and>
        t_anime_episodes (db_after ?out) = t_anime_episodes naruto_db"
    by blast
  with naruto_query trim_naruto ok rows rows' cols show ?thesis
    by simp
qed

section \<open>The title-only lookup stays local (C6)\<close>

text \<open>
  C6. For every non-empty query string the title-only lookup makes no outbound HTTP call on
  any path: its only call is the one SELECT on the cache. When the statement is accepted and
  no cached row matches, it answers 200 with an empty result set and the informational
  message; the store is never changed.
\<close>

theorem titles_lookup_stays_local:
  assumes "rq_query req = QStr q" and "trim q \<noteq> []"
  shows "calls (anime_search_titles P W req d) = [DbQuery (SelectTitles (sanitizeQuery P q))] \<and>
         length (filter is_http (calls (anime_search_titles P W req d))) = 0 \<and>
         db_after (anime_search_titles P W req d) = d \<and>
         (\<not> db_fails W (SelectTitles (sanitizeQuery P q)) \<and>
          select_titles_rows P (sanitizeQuery P q) d = [] \<longrightarrow>
            sent (anime_search_titles P W req d) =
              \<lparr>status = 200,
               body = TitlesBody (ustr ''database'') [] (Some nenhum_titulo)\<rparr>)"
  using assms
  by (simp add: anime_search_titles_def run_handler_def search_titles_run finish_def emit_def)

theorem titles_lookup_stays_local_witness:
  "rq_query (get_request (ustr ''Naruto'')) = QStr (ustr ''Naruto'') \<and>
   trim (ustr ''Naruto'') \<noteq> [] \<and>
   \<not> db_fails demo_world (SelectTitles (ustr ''Naruto'')) \<and>
   select_titles_rows demo_platform (ustr ''Naruto'') empty_db = [] \<and>
   calls (anime_search_titles demo_platform demo_world (get_request (ustr ''Naruto'')) empty_db) =
     [DbQuery (SelectTitles (ustr ''Naruto''))] \<and>
   length (filter is_http
             (calls (anime_search_titles demo_platform demo_world (get_request (ustr ''Naruto''))
                       empty_db))) = 0 \<and>
   sent (anime_search_titles demo_platform demo_world (get_request (ustr ''Naruto'')) empty_db) =
     \<lparr>status = 200, body = TitlesBody (ustr ''database'') [] (Some nenhum_titulo)\<rparr>"
proof -
  have q: "rq_query (get_request (ustr ''Naruto'')) = QStr (ustr ''Naruto'')"
    by (simp add: get_request_def)
  have none: "select_titles_rows demo_platform (ustr ''Naruto'') empty_db = []"
    by (simp add: select_titles_rows_def empty_db_def)
  from titles_lookup_stays_local [OF q trim_naruto, of demo_platform demo_world empty_db]
    q trim_naruto none
  show ?thesis
    by (simp add: sanitize_naruto)
qed

section \<open>Validation of the query (C7)\<close>

text \<open>
  C7. A request whose \<^verbatim>\<open>query\<close> parameter is missing, is not a string, or is empty after
  trimming is answered by each of the three endpoints with status 400 and an
  \<^verbatim>\<open>{error}\<close> body; no database statement and no upstream call is made, and the store is
  left as it was.
\<close>

theorem invalid_query_rejected:
  assumes "rq_query req = QMissing \<or> (\<exists>qs. rq_query req = QArr qs) \<or>
           (\<exists>q. rq_query req = QStr q \<and> trim q = [])"
  shows "(\<forall>out \<in> {anime_search_titles P W req d, anime_search_api P W req d,
                    anime_name P W req d}.
            sent out = \<lparr>status = 400, body = ErrorBody consulta_vazia\<rparr> \<and>
            calls out = [] \<and> db_after out = d)"
  by (simp add: not_a_query [OF assms] bad_request_def)

theorem invalid_query_rejected_witness:
  "trim [32, 9, 12288] = [] \<and>
   anime_search_titles demo_platform demo_world blank_request empty_db =
     \<lparr>sent = \<lparr>status = 400, body = ErrorBody consulta_vazia\<rparr>, db_after = empty_db,
      calls = []\<rparr> \<and>
   anime_search_api demo_platform demo_world blank_request empty_db =
     \<lparr>sent = \<lparr>status = 400, body = ErrorBody consulta_vazia\<rparr>, db_after = empty_db,
      calls = []\<rparr> \<and>
   anime_name demo_platform demo_world blank_request empty_db =
     \<lparr>sent = \<lparr>status = 400, body = ErrorBody consulta_vazia\<rparr>, db_after = empty_db,
      calls = []\<rparr>"
proof -
  have blank: "trim [32, 9, 12288] = []"
    by (simp add: trim_def isWhiteSpace_def)
  then have "rq_query blank_request = QMissing \<or> (\<exists>qs. rq_query blank_request = QArr qs) \<or>
             (\<exists>q. rq_query blank_request = QStr q \<and> trim q = [])"
    by (simp add: blank_request_def)
  from invalid_query_rejected [OF this, of demo_platform demo_world empty_db] blank
  show ?thesis
    by (simp add: outcome.equality)
qed

section \<open>Normalisation of the query (C8)\<close>

lemma titles_searched:
  assumes "rq_query req = QStr q" and "trim q \<noteq> []"
  shows "calls (anime_search_titles P W req d) \<noteq> [] \<and>
         searched (hd (calls (anime_search_titles P W req d))) = Some (sanitizeQuery P q) \<and>
         (\<forall>ev \<in> set (calls (anime_search_titles P W req d)).
            \<forall>t. searched ev = Some t \<longrightarrow> t = sanitizeQuery P q)"
  using assms
  by (simp add: anime_search_titles_def run_handler_def search_titles_run finish_def emit_def)

lemma api_searched:
  assumes "rq_query req = QStr q" and "trim q \<noteq> []"
  shows "calls (anime_search_api P W req d) \<noteq> [] \<and>
         searched (hd (calls (anime_search_api P W req d))) = Some (sanitizeQuery P q) \<and>
         (\<forall>ev \<in> set (calls (anime_search_api P W req d)).
            \<forall>t. searched ev = Some t \<longrightarrow> t = sanitizeQuery P q)"
  using assms
  by (auto simp: anime_search_api_def run_handler_def search_api_run finish_def emit_def Let_def
      split: sum.splits option.splits)

lemma name_searched:
  assumes "rq_query req = QStr q" and "trim q \<noteq> []"
  shows "calls (anime_name P W req d) \<noteq> [] \<and>
         searched (hd (calls (anime_name P W req d))) = Some (sanitizeQuery P q) \<and>
         (\<forall>ev \<in> set (calls (anime_name P W req d)).
            \<forall>t. searched ev = Some t \<longrightarrow> t = sanitizeQuery P q)"
  using assms
  by (auto simp: anime_name_def run_handler_def name_try_run name_from_db_run
      name_from_api_run finish_def emit_def Let_def name_select_def
      episodes_stored_def anime_stored_def searched_episode_calls searched_deepl_calls
      split: if_splits option.splits sum.splits)

text \<open>
  C8. For a valid query, each endpoint searches with the normalised query and with nothing
  else: its first outbound call (the SELECT of the two cache lookups, the GraphQL request of
  the paginated search) carries it, and so does every later call that carries a search
  text. The normalised query consists of letters, numbers and white space only; its
  characters other than white space are exactly the letters and numbers of the query, in
  order (whatever the script); it is the query without the other characters, less the white
  space at both ends; and it neither starts nor ends with white space.
\<close>

theorem query_normalised:
  assumes "rq_query req = QStr q" and "trim q \<noteq> []"
  shows "(\<forall>out \<in> {anime_search_titles P W req d, anime_search_api P W req d,
                    anime_name P W req d}.
            calls out \<noteq> [] \<and> searched (hd (calls out)) = Some (sanitizeQuery P q) \<and>
            (\<forall>ev \<in> set (calls out). \<forall>t. searched ev = Some t \<longrightarrow> t = sanitizeQuery P q)) \<and>
         (\<forall>c \<in> set (sanitizeQuery P q). kept P c) \<and>
         filter (\<lambda>c. \<not> isWhiteSpace c) (sanitizeQuery P q) =
           filter (\<lambda>c. \<not> isWhiteSpace c \<and> (p_L P c \<or> p_N P c)) q \<and>
         (\<exists>pre suf. filter (kept P) q = pre @ sanitizeQuery P q @ suf \<and>
                    (\<forall>c \<in> set pre. isWhiteSpace c) \<and> (\<forall>c \<in> set suf. isWhiteSpace c)) \<and>
         (sanitizeQuery P q \<noteq> [] \<longrightarrow>
            \<not> isWhiteSpace (hd (sanitizeQuery P q)) \<and>
            \<not> isWhiteSpace (last (sanitizeQuery P q)))"
proof -
  have "kept P = (\<lambda>c. p_L P c \<or> p_N P c \<or> isWhiteSpace c)"
    by (rule ext) (simp add: kept_def)
  then have form: "sanitizeQuery P q = trim (filter (kept P) q)"
    by (simp add: sanitizeQuery_def)
  have used: "\<forall>out \<in> {anime_search_titles P W req d, anime_search_api P W req d,
                    anime_name P W req d}.
            calls out \<noteq> [] \<and> searched (hd (calls out)) = Some (sanitizeQuery P q) \<and>
            (\<forall>ev \<in> set (calls out). \<forall>t. searched ev = Some t \<longrightarrow> t = sanitizeQuery P q)"
    using titles_searched [OF assms, of P W d] api_searched [OF assms, of P W d]
      name_searched [OF assms, of P W d]
    by simp
  have inside: "\<forall>c \<in> set (sanitizeQuery P q). kept P c"
    using set_trim [of "filter (kept P) q"] by (auto simp: form)
  have "filter (\<lambda>c. \<not> isWhiteSpace c) (sanitizeQuery P q) =
        filter (\<lambda>c. \<not> isWhiteSpace c) (filter (kept P) q)"
    by (simp only: form filter_trim)
  also have "\<dots> = filter (\<lambda>c. \<not> isWhiteSpace c \<and> (p_L P c \<or> p_N P c)) q"
    by (auto simp: kept_def intro: filter_cong)
  finally have letters: "filter (\<lambda>c. \<not> isWhiteSpace c) (sanitizeQuery P q) =
        filter (\<lambda>c. \<not> isWhiteSpace c \<and> (p_L P c \<or> p_N P c)) q" .
  have parts: "\<exists>pre suf. filter (kept P) q = pre @ sanitizeQuery P q @ suf \<and>
                    (\<forall>c \<in> set pre. isWhiteSpace c) \<and> (\<forall>c \<in> set suf. isWhiteSpace c)"
    unfolding form by (rule trim_parts)
  have ends: "sanitizeQuery P q \<noteq> [] \<longrightarrow>
            \<not> isWhiteSpace (hd (sanitizeQuery P q)) \<and>
            \<not> isWhiteSpace (last (sanitizeQuery P q))"
    unfolding form using trim_ends by blast
  from used inside letters parts ends show ?thesis
    by blast
qed

theorem query_normalised_witness:
  "rq_query (get_request dirty_query) = QStr dirty_query \<and>
   trim dirty_query \<noteq> [] \<and>
   sanitizeQuery demo_platform dirty_query = clean_query \<and>
   searched (hd (calls (anime_search_titles demo_platform demo_world (get_request dirty_query)
                          empty_db))) = Some clean_query \<and>
   searched (hd (calls (anime_search_api demo_platform demo_world (get_request dirty_query)
                          empty_db))) = Some clean_query \<and>
   searched (hd (calls (anime_name demo_platform demo_world (get_request dirty_query)
                          empty_db))) = Some clean_query \<and>
   list_all (kept demo_platform) clean_query \<and>
   \<not> isWhiteSpace (hd clean_query) \<and> \<not> isWhiteSpace (last clean_query)"
proof -
  have q: "rq_query (get_request dirty_query) = QStr dirty_query"
    by (simp add: get_request_def)
  have some: "clean_query \<noteq> []"
    by (simp add: clean_query_def ustr_simps)
  from query_normalised [OF q trim_dirty, of demo_platform demo_world empty_db]
    q trim_dirty some
  show ?thesis
    unfolding sanitize_dirty list_all_iff by blast
qed

section \<open>Page and limit of the combined lookup (C9)\<close>

text \<open>
  C9. Whenever \<^verbatim>\<open>/anime/name\<close> answers with a result body after having called AniList
  (the cache-miss path), the body's \<^verbatim>\<open>page\<close> and \<^verbatim>\<open>limit\<close> are the constants 1 and 1,
  whatever the request asked for; a result body sent without an upstream call (the
  cache-hit path) echoes the parsed \<^verbatim>\<open>page\<close> and \<^verbatim>\<open>limit\<close> of the request.
\<close>

theorem miss_path_page_limit:
  assumes "body (sent (anime_name P W req d)) = DetailBody src res pg lim"
  shows "if \<exists>search. GraphqlMedia search \<in> set (calls (anime_name P W req d))
         then src = ustr ''api'' \<and> pg = Some 1 \<and> lim = Some 1
         else src = ustr ''database'' \<and> pg = param_int P 1 (rq_page req) \<and>
              lim = param_int P 10 (rq_limit req)"
proof (cases "rq_query req")
  case QMissing
  with assms show ?thesis by (simp add: anime_name_def bad_request_def)
next
  case (QArr qs)
  with assms show ?thesis by (simp add: anime_name_def bad_request_def)
next
  case (QStr q)
  show ?thesis
  proof (cases "trim q = []")
    case True
    with QStr assms show ?thesis by (simp add: anime_name_def bad_request_def)
  next
    case False
    with QStr assms show ?thesis
      by (auto simp: anime_name_def run_handler_def name_try_run name_from_db_run
          name_from_api_run finish_def emit_def Let_def not_in_episode_calls
          episodes_stored_def anime_stored_def ustr_simps
          split: if_splits option.splits sum.splits)
  qed
qed

theorem miss_path_page_limit_witness:
  "param_int demo_platform 1 (rq_page paged_request) = Some 3 \<and>
   param_int demo_platform 10 (rq_limit paged_request) = Some 5 \<and>
   GraphqlMedia (ustr ''Naruto'') \<in>
     set (calls (anime_name demo_platform demo_world paged_request empty_db)) \<and>
   (\<exists>res. body (sent (anime_name demo_platform demo_world paged_request empty_db)) =
            DetailBody (ustr ''api'') res (Some 1) (Some 1))"
proof -
  let ?out = "anime_name demo_platform demo_world paged_request empty_db"
  have shape: "\<exists>src res pg lim. body (sent ?out) = DetailBody src res pg lim"
    unfolding anime_name_api_outcome [OF paged_reaches]
    by (simp add: Let_def naruto_m_title)
  have called: "GraphqlMedia (ustr ''Naruto'') \<in> set (calls ?out)"
    unfolding anime_name_api_outcome [OF paged_reaches]
    by (simp add: Let_def naruto_m_title miss_prefix_def sanitize_naruto)
  from shape obtain src res pg lim where b: "body (sent ?out) = DetailBody src res pg lim"
    by blast
  from miss_path_page_limit [OF b] called
  have "src = ustr ''api'' \<and> pg = Some 1 \<and> lim = Some 1"
    by (auto split: if_splits)
  with b called paged_params show ?thesis by simp
qed

section \<open>Missing titles (C10)\<close>

lemma or_null_missing: "or_null x = (if missing x then None else x)"
  by (simp add: or_null_def missing_def split: option.splits)

lemma or_else_missing: "Some (or_else x d) = (if missing x then Some d else x)"
  by (simp add: or_else_def str_or_def missing_def split: option.splits)

lemma title_values_stored:
  assumes "title_cols r = title_values anime title"
  shows "a_id r = m_id anime \<and>
         a_title_romaji r = (if missing (romaji title) then None else romaji title) \<and>
         a_title_english r =
           (if missing (english title) then Some (ustr ''N/A'') else english title) \<and>
         a_title_native r = (if missing (native title) then None else native title)"
  using assms
  by (simp add: title_cols_def title_values_def or_null_missing or_else_missing)

lemma anime_params_titles:
  "title_cols (anime_params anime title cd) = title_values anime title"
  by (simp add: title_cols_def title_values_def anime_params_def)

text \<open>
  C10. On both upsert paths a missing English title (null or empty) is stored as the string
  \<^verbatim>\<open>N/A\<close>, while a missing romanized or native title is stored as NULL; a title that is
  present is stored as it is. For the paginated search this is the row of a record of a page
  with distinct identifiers, for the combined lookup the row of the fetched anime, each
  after a successful run.
\<close>

theorem english_title_placeholder:
  "(rq_query req = QStr q \<and> trim q \<noteq> [] \<and>
    status (sent (anime_search_api P W req d)) = 200 \<and>
    api_page P W req q = Inr (Some (Some found)) \<and> distinct (map m_id found) \<and>
    anime \<in> set found \<and> m_title anime = Some title \<longrightarrow>
      (\<exists>r \<in> set (t_animes (db_after (anime_search_api P W req d))).
         a_id r = m_id anime \<and>
         a_title_romaji r = (if missing (romaji title) then None else romaji title) \<and>
         a_title_english r =
           (if missing (english title) then Some (ustr ''N/A'') else english title) \<and>
         a_title_native r = (if missing (native title) then None else native title))) \<and>
   (reaches_api P W' req' d q' anime' \<and> status (sent (anime_name P W' req' d)) = 200 \<and>
    m_title anime' = Some title' \<longrightarrow>
      (\<exists>r \<in> set (t_animes (db_after (anime_name P W' req' d))).
         a_id r = m_id anime' \<and>
         a_title_romaji r = (if missing (romaji title') then None else romaji title') \<and>
         a_title_english r =
           (if missing (english title') then Some (ustr ''N/A'') else english title') \<and>
         a_title_native r = (if missing (native title') then None else native title')))"
proof (intro conjI impI)
  assume a: "rq_query req = QStr q \<and> trim q \<noteq> [] \<and>
    status (sent (anime_search_api P W req d)) = 200 \<and>
    api_page P W req q = Inr (Some (Some found)) \<and> distinct (map m_id found) \<and>
    anime \<in> set found \<and> m_title anime = Some title"
  then have q: "rq_query req = QStr q" and t: "trim q \<noteq> []"
    and ok: "status (sent (anime_search_api P W req d)) = 200"
    by simp_all
  obtain found' vals where page: "api_page P W req q = Inr (Some (Some found'))"
    and vals: "animeValues found' = Some vals"
    and out: "anime_search_api P W req d =
           \<lparr>sent = \<lparr>status = 200,
                     body = TitlesBody (ustr ''api'') (map title_summary found') None\<rparr>,
            db_after = d\<lparr>t_animes := upsert_titles (column_defaults P) vals (t_animes d)\<rparr>,
            calls = [page_call P req q, DbQuery (UpsertTitles vals)]\<rparr>"
    by (rule search_api_ok [OF q t ok])
  from page a have same: "found' = found"
    by simp
  have "title_values anime title \<in> set vals"
    using a animeValues_mem [OF vals] by (simp add: same)
  moreover have "distinct (map fst vals)"
    using a animeValues_ids [OF vals] by (simp add: same)
  ultimately obtain r where mem: "r \<in> set (upsert_titles (column_defaults P) vals (t_animes d))"
    and cols: "title_cols r = title_values anime title"
    using upsert_titles_mem by blast
  from mem have "r \<in> set (t_animes (db_after (anime_search_api P W req d)))"
    by (simp add: out)
  with title_values_stored [OF cols] show "\<exists>r \<in> set (t_animes (db_after (anime_search_api P W req d))).
         a_id r = m_id anime \<and>
         a_title_romaji r = (if missing (romaji title) then None else romaji title) \<and>
         a_title_english r =
           (if missing (english title) then Some (ustr ''N/A'') else english title) \<and>
         a_title_native r = (if missing (native title) then None else native title)"
    by blast
next
  assume b: "reaches_api P W' req' d q' anime' \<and> status (sent (anime_name P W' req' d)) = 200 \<and>
    m_title anime' = Some title'"
  then have r: "reaches_api P W' req' d q' anime'"
    and ok: "status (sent (anime_name P W' req' d)) = 200"
    by simp_all
  obtain t where "m_title anime' = Some t"
    and db: "t_animes (db_after (anime_name P W' req' d)) =
               upsert_anime (anime_params anime' t (cleanDescription P W' anime')) (t_animes d)"
    by (rule api_success [OF r ok]) simp
  with b have db': "t_animes (db_after (anime_name P W' req' d)) =
               upsert_anime (anime_params anime' title' (cleanDescription P W' anime')) (t_animes d)"
    by simp
  have "anime_params anime' title' (cleanDescription P W' anime')
          \<in> set (t_animes (db_after (anime_name P W' req' d)))"
    by (simp add: db' upsert_anime_mem)
  then show "\<exists>r \<in> set (t_animes (db_after (anime_name P W' req' d))).
         a_id r = m_id anime' \<and>
         a_title_romaji r = (if missing (romaji title') then None else romaji title') \<and>
         a_title_english r =
           (if missing (english title') then Some (ustr ''N/A'') else english title') \<and>
         a_title_native r = (if missing (native title') then None else native title')"
    using title_values_stored [OF anime_params_titles] by blast
qed

theorem english_title_placeholder_witness:
  "rq_query (get_request (ustr ''Naruto'')) = QStr (ustr ''Naruto'') \<and>
   trim (ustr ''Naruto'') \<noteq> [] \<and>
   status (sent (anime_search_api demo_platform demo_world (get_request (ustr ''Naruto''))
                   empty_db)) = 200 \<and>
   api_page demo_platform demo_world (get_request (ustr ''Naruto'')) (ustr ''Naruto'') =
     Inr (Some (Some [naruto, bleach])) \<and>
   distinct (map m_id [naruto, bleach]) \<and>
   m_title naruto = Some naruto_title \<and> m_title bleach = Some bleach_title \<and>
   missing (english naruto_title) \<and> missing (romaji bleach_title) \<and>
   missing (native bleach_title) \<and>
   (\<exists>r \<in> set (t_animes (db_after (anime_search_api demo_platform demo_world
                                     (get_request (ustr ''Naruto'')) empty_db))).
      a_id r = 20 \<and> a_title_romaji r = Some (ustr ''Naruto'') \<and>
      a_title_english r = Some (ustr ''N/A'') \<and>
      a_title_native r = Some [12490, 12523, 12488]) \<and>
   (\<exists>r \<in> set (t_animes (db_after (anime_search_api demo_platform demo_world
                                     (get_request (ustr ''Naruto'')) empty_db))).
      a_id r = 269 \<and> a_title_romaji r = None \<and>
      a_title_english r = Some (ustr ''Bleach'') \<and> a_title_native r = None) \<and>
   reaches_api demo_platform demo_world (get_request (ustr ''Naruto'')) empty_db
     (ustr ''Naruto'') naruto \<and>
   status (sent (anime_name demo_platform demo_world (get_request (ustr ''Naruto''))
                   empty_db)) = 200 \<and>
   (\<exists>r \<in> set (t_animes (db_after (anime_name demo_platform demo_world
                                     (get_request (ustr ''Naruto'')) empty_db))).
      a_id r = 20 \<and> a_title_romaji r = Some (ustr ''Naruto'') \<and>
      a_title_english r = Some (ustr ''N/A'') \<and>
      a_title_native r = Some [12490, 12523, 12488])"
proof -
  have ok: "status (sent (anime_search_api demo_platform demo_world
                            (get_request (ustr ''Naruto'')) empty_db)) = 200"
    by (simp add: demo_search_run)
  have ok': "status (sent (anime_name demo_platform demo_world (get_request (ustr ''Naruto''))
                             empty_db)) = 200"
    by (simp add: naruto_run)
  have ids: "distinct (map m_id [naruto, bleach])"
    by (simp add: naruto_def naruto_title_def bleach_def bleach_title_def)
  have bleach: "m_title bleach = Some bleach_title" "m_id bleach = 269"
    by (simp_all add: bleach_def bleach_title_def)
  have naruto: "m_id naruto = 20" "romaji naruto_title = Some (ustr ''Naruto'')"
    "native naruto_title = Some [12490, 12523, 12488]"
    "english bleach_title = Some (ustr ''Bleach'')"
    by (simp_all add: naruto_def naruto_title_def bleach_title_def)
  have hyp: "\<And>anime. anime \<in> set [naruto, bleach] \<Longrightarrow>
             rq_query (get_request (ustr ''Naruto'')) = QStr (ustr ''Naruto'') \<and>
             trim (ustr ''Naruto'') \<noteq> [] \<and>
             status (sent (anime_search_api demo_platform demo_world
                             (get_request (ustr ''Naruto'')) empty_db)) = 200 \<and>
             api_page demo_platform demo_world (get_request (ustr ''Naruto'')) (ustr ''Naruto'') =
               Inr (Some (Some [naruto, bleach])) \<and>
             distinct (map m_id [naruto, bleach]) \<and> anime \<in> set [naruto, bleach]"
    using naruto_query trim_naruto ok demo_page ids by simp
  have first:
    "\<exists>r \<in> set (t_animes (db_after (anime_search_api demo_platform demo_world
                                     (get_request (ustr ''Naruto'')) empty_db))).
      a_id r = 20 \<and> a_title_romaji r = Some (ustr ''Naruto'') \<and>
      a_title_english r = Some (ustr ''N/A'') \<and>
      a_title_native r = Some [12490, 12523, 12488]"
    using english_title_placeholder
            [where P = demo_platform and W = demo_world and req = "get_request (ustr ''Naruto'')"
               and d = empty_db and q = "ustr ''Naruto''" and found = "[naruto, bleach]"
               and anime = naruto and title = naruto_title]
          hyp [of naruto] naruto_m_title titles_missing naruto
    by simp
  have second:
    "\<exists>r \<in> set (t_animes (db_after (anime_search_api demo_platform demo_world
                                     (get_request (ustr ''Naruto'')) empty_db))).
      a_id r = 269 \<and> a_title_romaji r = None \<and>
      a_title_english r = Some (ustr ''Bleach'') \<and> a_title_native r = None"
    using english_title_placeholder
            [where P = demo_platform and W = demo_world and req = "get_request (ustr ''Naruto'')"
               and d = empty_db and q = "ustr ''Naruto''" and found = "[naruto, bleach]"
               and anime = bleach and title = bleach_title]
          hyp [of bleach] bleach titles_missing naruto
    by simp
  have third:
    "\<exists>r \<in> set (t_animes (db_after (anime_name demo_platform demo_world
                                     (get_request (ustr ''Naruto'')) empty_db))).
      a_id r = 20 \<and> a_title_romaji r = Some (ustr ''Naruto'') \<and>
      a_title_english r = Some (ustr ''N/A'') \<and>
      a_title_native r = Some [12490, 12523, 12488]"
    using english_title_placeholder
            [where P = demo_platform and W' = demo_world and req' = "get_request (ustr ''Naruto'')"
               and d = empty_db and q' = "ustr ''Naruto''" and anime' = naruto
               and title' = naruto_title]
          demo_world_reaches ok' naruto_m_title titles_missing naruto
    by simp
  from first second third naruto_query trim_naruto ok demo_page ids naruto_m_title bleach(1)
    titles_missing demo_world_reaches ok'
  show ?thesis
    by simp
qed

end
